theory Spec2Isabelle
  imports Complex_Main
begin

section \<open>The task store of \<^verbatim>\<open>src/hooks/useTasks.ts\<close>\<close>

subsection \<open>JavaScript numbers\<close>

text \<open>
  A JavaScript number is a finite value, one of the two infinities, or NaN. A finite
  value is represented by the real number it denotes; the sign of zero is not
  represented. Comparisons are exact. The result of an addition or a division of finite
  values is the exact result rounded to a double, as IEEE 754 does it.
\<close>

datatype jsnum = Num real | PosInf | NegInf | NaN

text \<open>The nearest integer, the even one of the two when \<open>x\<close> lies halfway.\<close>

definition round_half_even :: "real \<Rightarrow> int" where
  "round_half_even x =
     (let f = \<lfloor>x\<rfloor>; d = x - of_int f
      in if d < 1 / 2 then f else if 1 / 2 < d then f + 1 else if even f then f else f + 1)"

text \<open>
  The distance between neighbouring doubles at the magnitude \<open>a > 0\<close>: a double has 53
  significant bits, and below \<open>2 ^ -1022\<close> the spacing stays \<open>2 ^ -1074\<close>.
\<close>

definition quantum :: "real \<Rightarrow> real" where
  "quantum a = 2 powr of_int (max (\<lfloor>log 2 a\<rfloor> - 52) (- 1074))"

text \<open>
  Rounding of an exact result to a double, to nearest with ties to even: the magnitude
  is rounded to a multiple of its quantum, and a result that reaches \<open>2 ^ 1024\<close> is an
  infinity.
\<close>

definition round_double :: "real \<Rightarrow> jsnum" where
  "round_double x =
     (if x = 0 then Num 0
      else
        let a = \<bar>x\<bar>;
            r = of_int (round_half_even (a / quantum a)) * quantum a
        in if 2 ^ 1024 \<le> r then (if 0 < x then PosInf else NegInf)
           else Num (if 0 < x then r else - r))"

text \<open>\<^verbatim>\<open>a <= b\<close>: false as soon as one side is NaN.\<close>

fun js_le :: "jsnum \<Rightarrow> jsnum \<Rightarrow> bool" where
  "js_le NaN b = False"
| "js_le a NaN = False"
| "js_le NegInf b = True"
| "js_le a PosInf = True"
| "js_le (Num a) (Num b) = (a \<le> b)"
| "js_le PosInf b = False"
| "js_le (Num a) NegInf = False"

text \<open>\<^verbatim>\<open>a > b\<close>: false as soon as one side is NaN.\<close>

fun js_gt :: "jsnum \<Rightarrow> jsnum \<Rightarrow> bool" where
  "js_gt NaN b = False"
| "js_gt a NaN = False"
| "js_gt PosInf PosInf = False"
| "js_gt PosInf b = True"
| "js_gt a PosInf = False"
| "js_gt NegInf b = False"
| "js_gt (Num a) NegInf = True"
| "js_gt (Num a) (Num b) = (a > b)"

text \<open>\<^verbatim>\<open>Number.isFinite\<close> on a number.\<close>

fun isFinite :: "jsnum \<Rightarrow> bool" where
  "isFinite (Num a) = True"
| "isFinite PosInf = False"
| "isFinite NegInf = False"
| "isFinite NaN = False"

text \<open>\<^verbatim>\<open>a + b\<close> on numbers.\<close>

fun js_add :: "jsnum \<Rightarrow> jsnum \<Rightarrow> jsnum" where
  "js_add NaN b = NaN"
| "js_add a NaN = NaN"
| "js_add PosInf NegInf = NaN"
| "js_add NegInf PosInf = NaN"
| "js_add PosInf b = PosInf"
| "js_add a PosInf = PosInf"
| "js_add NegInf b = NegInf"
| "js_add a NegInf = NegInf"
| "js_add (Num a) (Num b) = round_double (a + b)"

text \<open>\<^verbatim>\<open>a / b\<close> on numbers. A zero divisor is taken as \<^verbatim>\<open>+0\<close>.\<close>

fun js_div :: "jsnum \<Rightarrow> jsnum \<Rightarrow> jsnum" where
  "js_div NaN b = NaN"
| "js_div a NaN = NaN"
| "js_div (Num a) (Num b) =
     (if b = 0 then (if a = 0 then NaN else if a > 0 then PosInf else NegInf)
      else round_double (a / b))"
| "js_div (Num a) PosInf = Num 0"
| "js_div (Num a) NegInf = Num 0"
| "js_div PosInf (Num b) = (if b < 0 then NegInf else PosInf)"
| "js_div NegInf (Num b) = (if b < 0 then PosInf else NegInf)"
| "js_div PosInf b = NaN"
| "js_div NegInf b = NaN"

subsection \<open>Tasks and the state of the hook\<close>

text \<open>
  Modelled from the spec: the declaration of \<^verbatim>\<open>Task\<close> is in \<^verbatim>\<open>@/types\<close>, which is
  not among the sources; the spec gives \<^verbatim>\<open>createdAt\<close> as a timestamp and
  \<^verbatim>\<open>completedAt\<close> as an optional timestamp. A timestamp is the ISO-8601 string that
  \<^verbatim>\<open>Date.prototype.toISOString\<close> returns, represented here by the time value it
  encodes (milliseconds since the epoch).
\<close>

type_synonym timestamp = int

text \<open>
  The object that \<^verbatim>\<open>normalizeTasks\<close> builds and casts to \<^verbatim>\<open>Task\<close>. The fields
  \<^verbatim>\<open>id\<close> and \<^verbatim>\<open>notes\<close> are written \<open>id'\<close> and \<open>notes'\<close>. \<^verbatim>\<open>status\<close> and
  \<^verbatim>\<open>priority\<close> are the strings the code compares and stores. Every field is an
  option, \<open>None\<close> for \<^verbatim>\<open>undefined\<close>: \<^verbatim>\<open>updateTask\<close> spreads a
  \<^verbatim>\<open>Partial<Task>\<close> over a task, and such a patch may carry any field with the value
  \<^verbatim>\<open>undefined\<close>.
\<close>

record task =
  id' :: "string option"
  title :: "string option"
  revenue :: "jsnum option"
  timeTaken :: "jsnum option"
  priority :: "string option"
  status :: "string option"
  notes' :: "string option"
  createdAt :: "timestamp option"
  completedAt :: "timestamp option"

text \<open>
  The number that a comparison or an addition makes of a numeric field: NaN for
  \<^verbatim>\<open>undefined\<close>.
\<close>

fun ToNumber :: "jsnum option \<Rightarrow> jsnum" where
  "ToNumber None = NaN"
| "ToNumber (Some n) = n"

text \<open>
  The five \<^verbatim>\<open>useState\<close> cells of the hook. A call of the mutation API is taken to
  run on the committed state and to commit its own updates before the next call.
\<close>

record useTasks_state =
  tasks :: "task list"
  loading :: bool
  error :: "string option"
  lastDeleted :: "task option"
  undoOpen :: bool

text \<open>The state after the \<^verbatim>\<open>useState\<close> initialisers.\<close>

definition initial_state :: useTasks_state where
  "initial_state =
     \<lparr>tasks = [], loading = True, error = None, lastDeleted = None, undoOpen = False\<rparr>"

subsection \<open>\<^verbatim>\<open>addTask\<close>\<close>

text \<open>
  The argument of \<^verbatim>\<open>addTask\<close>, of type \<^verbatim>\<open>Omit<Task, 'id'> & { id?: string }\<close>:
  every field of a task with a value of its type, the id and \<^verbatim>\<open>completedAt\<close>
  optional.
\<close>

record new_task =
  id_in :: "string option"
  title_in :: string
  revenue_in :: jsnum
  timeTaken_in :: jsnum
  priority_in :: string
  status_in :: string
  notes_in :: string
  createdAt_in :: timestamp
  completedAt_in :: "timestamp option"

text \<open>
  \<open>now\<close> is the time that \<^verbatim>\<open>new Date()\<close> reads, \<open>uuid\<close> the string that
  \<^verbatim>\<open>crypto.randomUUID()\<close> returns if it is called.
\<close>

definition addTask :: "timestamp \<Rightarrow> string \<Rightarrow> new_task \<Rightarrow> useTasks_state \<Rightarrow> useTasks_state" where
  "addTask now uuid task s =
     (let id'' = (case id_in task of None \<Rightarrow> uuid | Some v \<Rightarrow> v);
          timeTaken' = (if js_le (timeTaken_in task) (Num 0) then Num 1 else timeTaken_in task);
          createdAt' = now;
          completedAt' = (if status_in task = ''Done'' then Some createdAt' else None)
      in s\<lparr>tasks := tasks s @
           [\<lparr>id' = Some id'', title = Some (title_in task),
             revenue = Some (revenue_in task), timeTaken = Some timeTaken',
             priority = Some (priority_in task), status = Some (status_in task),
             notes' = Some (notes_in task), createdAt = Some createdAt',
             completedAt = completedAt'\<rparr>]\<rparr>)"

subsection \<open>\<^verbatim>\<open>updateTask\<close>\<close>

text \<open>
  A \<^verbatim>\<open>Partial<Task>\<close>: \<open>None\<close> is a field the patch does not carry, \<open>Some None\<close> a
  field it carries with the value \<^verbatim>\<open>undefined\<close>, \<open>Some (Some v)\<close> a field it carries
  with the value \<open>v\<close>.
\<close>

record patch =
  id_p :: "string option option"
  title_p :: "string option option"
  revenue_p :: "jsnum option option"
  timeTaken_p :: "jsnum option option"
  priority_p :: "string option option"
  status_p :: "string option option"
  notes_p :: "string option option"
  createdAt_p :: "timestamp option option"
  completedAt_p :: "timestamp option option"

text \<open>
  The spread \<^verbatim>\<open>{ ...t, ...patch }\<close>: a field that the patch carries replaces the
  field of the task, also when its value is \<^verbatim>\<open>undefined\<close>.
\<close>

definition merge :: "task \<Rightarrow> patch \<Rightarrow> task" where
  "merge t p =
     \<lparr>id' = (case id_p p of None \<Rightarrow> id' t | Some v \<Rightarrow> v),
      title = (case title_p p of None \<Rightarrow> title t | Some v \<Rightarrow> v),
      revenue = (case revenue_p p of None \<Rightarrow> revenue t | Some v \<Rightarrow> v),
      timeTaken = (case timeTaken_p p of None \<Rightarrow> timeTaken t | Some v \<Rightarrow> v),
      priority = (case priority_p p of None \<Rightarrow> priority t | Some v \<Rightarrow> v),
      status = (case status_p p of None \<Rightarrow> status t | Some v \<Rightarrow> v),
      notes' = (case notes_p p of None \<Rightarrow> notes' t | Some v \<Rightarrow> v),
      createdAt = (case createdAt_p p of None \<Rightarrow> createdAt t | Some v \<Rightarrow> v),
      completedAt = (case completedAt_p p of None \<Rightarrow> completedAt t | Some v \<Rightarrow> v)\<rparr>"

text \<open>
  The callback that \<^verbatim>\<open>updateTask\<close> maps over the collection. The id \<open>i\<close> of the call
  is a value that \<^verbatim>\<open>!==\<close> compares with the id of the task.
\<close>

definition update_one :: "timestamp \<Rightarrow> string option \<Rightarrow> patch \<Rightarrow> task \<Rightarrow> task" where
  "update_one now i p t =
     (if id' t \<noteq> i then t
      else
        let updated = merge t p;
            updated = (if status t \<noteq> Some ''Done'' \<and> status updated = Some ''Done''
                       then updated\<lparr>completedAt := Some now\<rparr> else updated);
            updated = (if js_le (ToNumber (timeTaken updated)) (Num 0)
                       then updated\<lparr>timeTaken := Some (Num 1)\<rparr> else updated)
        in updated)"

text \<open>\<open>now\<close> is the time that \<^verbatim>\<open>new Date()\<close> reads during the call.\<close>

definition updateTask ::
  "timestamp \<Rightarrow> string option \<Rightarrow> patch \<Rightarrow> useTasks_state \<Rightarrow> useTasks_state" where
  "updateTask now i p s = s\<lparr>tasks := map (update_one now i p) (tasks s)\<rparr>"

subsection \<open>Delete and undo\<close>

text \<open>
  \<^verbatim>\<open>deleteTask\<close> holds the first task with the id, null (\<open>None\<close>) if there is none,
  opens the undo window and removes every task with the id. The id \<open>i\<close> of the call is
  a value that \<^verbatim>\<open>===\<close> compares with the id of a task.
\<close>

definition deleteTask :: "string option \<Rightarrow> useTasks_state \<Rightarrow> useTasks_state" where
  "deleteTask i s =
     (let target = find (\<lambda>t. id' t = i) (tasks s)
      in s\<lparr>tasks := filter (\<lambda>t. id' t \<noteq> i) (tasks s),
            lastDeleted := target, undoOpen := True\<rparr>)"

text \<open>\<^verbatim>\<open>undoDelete\<close> returns at once when nothing is held or the window is closed.\<close>

definition undoDelete :: "useTasks_state \<Rightarrow> useTasks_state" where
  "undoDelete s =
     (case lastDeleted s of
        None \<Rightarrow> s
      | Some d \<Rightarrow>
          if \<not> undoOpen s then s
          else s\<lparr>tasks := tasks s @ [d], lastDeleted := None, undoOpen := False\<rparr>)"

definition clearUndo :: "useTasks_state \<Rightarrow> useTasks_state" where
  "clearUndo s = s\<lparr>lastDeleted := None, undoOpen := False\<rparr>"

subsection \<open>Ingestion: \<^verbatim>\<open>normalizeTasks\<close>\<close>

text \<open>
  A field of a loaded record on which the code calls \<^verbatim>\<open>Number\<close>: missing, or a JSON
  value. An array or an object is \<open>JObject s\<close>, with the string \<open>s\<close> that its
  conversion to a primitive gives.
\<close>

datatype jsval =
  JUndefined | JNull | JBool bool | JNumber jsnum | JString string | JObject string

text \<open>
  What the JavaScript runtime supplies: the clock, the identifiers drawn by
  \<^verbatim>\<open>crypto.randomUUID()\<close> (indexed by the position of the record that needs one), the
  conversion of a string to a number, and the messages of the errors that the runtime
  itself throws.
\<close>

record js_env =
  Date_now :: timestamp
  randomUUID :: "nat \<Rightarrow> string"
  StringToNumber :: "string \<Rightarrow> jsnum"
  TypeError_message :: string
  RangeError_message :: string

text \<open>\<^verbatim>\<open>Number(v)\<close>.\<close>

fun Number :: "js_env \<Rightarrow> jsval \<Rightarrow> jsnum" where
  "Number env JUndefined = NaN"
| "Number env JNull = Num 0"
| "Number env (JBool b) = (if b then Num 1 else Num 0)"
| "Number env (JNumber n) = n"
| "Number env (JString s) = StringToNumber env s"
| "Number env (JObject s) = StringToNumber env s"

text \<open>
  The field \<^verbatim>\<open>createdAt\<close> of a loaded record, by what \<^verbatim>\<open>new Date\<close> makes of it:
  falsy (missing, null, the empty string), a value that denotes a time, or a value that
  gives an invalid date.
\<close>

datatype raw_date = NoDate | DateValue int | BadDate

text \<open>
  A loaded record. \<open>None\<close> is a field that is missing or null, for
  \<^verbatim>\<open>completedAt\<close> any falsy value. A field that is present holds a value of the
  field's type, except for the two numeric fields, which the code converts.
\<close>

record raw_task =
  id_raw :: "string option"
  title_raw :: "string option"
  revenue_raw :: jsval
  timeTaken_raw :: jsval
  priority_raw :: "string option"
  status_raw :: "string option"
  notes_raw :: "string option"
  createdAt_raw :: raw_date
  completedAt_raw :: "timestamp option"

datatype js_error = TypeError | RangeError

text \<open>
  A \<^verbatim>\<open>Date\<close> object is its time value, \<open>None\<close> for an invalid date. A time value
  beyond 8.64e15 milliseconds from the epoch gives an invalid date.
\<close>

definition Date_new :: "int \<Rightarrow> int option" where
  "Date_new v = (if \<bar>v\<bar> \<le> 8640000000000000 then Some v else None)"

text \<open>\<^verbatim>\<open>toISOString\<close> throws a RangeError on an invalid date.\<close>

definition toISOString :: "int option \<Rightarrow> js_error + timestamp" where
  "toISOString d = (case d of None \<Rightarrow> Inl RangeError | Some v \<Rightarrow> Inr v)"

text \<open>The local \<^verbatim>\<open>created\<close> of the callback, for the record at index \<open>idx\<close>.\<close>

definition created_of :: "js_env \<Rightarrow> nat \<Rightarrow> raw_task \<Rightarrow> int option" where
  "created_of env idx t =
     (case createdAt_raw t of
        NoDate \<Rightarrow> Date_new (Date_now env - (int idx + 1) * 24 * 3600 * 1000)
      | DateValue v \<Rightarrow> Date_new v
      | BadDate \<Rightarrow> None)"

text \<open>
  The local \<^verbatim>\<open>completed\<close>: the loaded value if it is truthy; otherwise, for a record
  that is Done, the day after \<^verbatim>\<open>created\<close>, and undefined for any other.
\<close>

definition completed_of :: "raw_task \<Rightarrow> int option \<Rightarrow> js_error + timestamp option" where
  "completed_of t created =
     (case completedAt_raw t of
        Some c \<Rightarrow> Inr (Some c)
      | None \<Rightarrow>
          if status_raw t = Some ''Done''
          then (case toISOString
                       (case created of
                          None \<Rightarrow> None
                        | Some c \<Rightarrow> Date_new (c + 24 * 3600 * 1000)) of
                  Inl e \<Rightarrow> Inl e
                | Inr d \<Rightarrow> Inr (Some d))
          else Inr None)"

text \<open>
  The callback of the \<^verbatim>\<open>map\<close> in \<^verbatim>\<open>normalizeTasks\<close>. An element that is null
  (\<open>None\<close>) makes the first property access throw a TypeError.
\<close>

definition normalize_one :: "js_env \<Rightarrow> nat \<Rightarrow> raw_task option \<Rightarrow> js_error + task" where
  "normalize_one env idx r =
     (case r of
        None \<Rightarrow> Inl TypeError
      | Some t \<Rightarrow>
          (case completed_of t (created_of env idx t) of
             Inl e \<Rightarrow> Inl e
           | Inr completed \<Rightarrow>
               (case toISOString (created_of env idx t) of
                  Inl e \<Rightarrow> Inl e
                | Inr c \<Rightarrow>
                    Inr \<lparr>id' = Some (case id_raw t of None \<Rightarrow> randomUUID env idx
                                      | Some v \<Rightarrow> v),
                         title = Some (case title_raw t of None \<Rightarrow> ''Untitled Task''
                                       | Some v \<Rightarrow> v),
                         revenue = Some (if isFinite (Number env (revenue_raw t))
                                         then Number env (revenue_raw t) else Num 0),
                         timeTaken = Some (if js_gt (Number env (timeTaken_raw t)) (Num 0)
                                           then Number env (timeTaken_raw t) else Num 1),
                         priority = Some (case priority_raw t of None \<Rightarrow> ''Medium''
                                          | Some v \<Rightarrow> v),
                         status = Some (case status_raw t of None \<Rightarrow> ''Todo'' | Some v \<Rightarrow> v),
                         notes' = Some (case notes_raw t of None \<Rightarrow> [] | Some v \<Rightarrow> v),
                         createdAt = Some c,
                         completedAt = completed\<rparr>)))"

text \<open>The \<^verbatim>\<open>map\<close> from index \<open>idx\<close> on: the first callback that throws ends it.\<close>

fun normalize_from :: "js_env \<Rightarrow> nat \<Rightarrow> raw_task option list \<Rightarrow> js_error + task list" where
  "normalize_from env idx [] = Inr []"
| "normalize_from env idx (r # rs) =
     (case normalize_one env idx r of
        Inl e \<Rightarrow> Inl e
      | Inr t \<Rightarrow>
          (case normalize_from env (Suc idx) rs of
             Inl e \<Rightarrow> Inl e
           | Inr ts \<Rightarrow> Inr (t # ts)))"

text \<open>
  The value that \<^verbatim>\<open>res.json()\<close> resolves to: an array, or anything else. An element
  of the array is null (\<open>None\<close>) or a value whose fields the callback reads; a number,
  a string or a boolean has none of them, like the record \<^verbatim>\<open>{}\<close>.
\<close>

datatype json_data = JArray "raw_task option list" | JNotArray

definition normalizeTasks :: "js_env \<Rightarrow> json_data \<Rightarrow> js_error + task list" where
  "normalizeTasks env input =
     normalize_from env 0 (case input of JArray xs \<Rightarrow> xs | JNotArray \<Rightarrow> [])"

subsection \<open>Ingestion: \<^verbatim>\<open>loadTasks\<close>\<close>

text \<open>
  What the two awaited promises settle to. A rejection carries the \<^verbatim>\<open>message\<close> of the
  thrown value, \<open>None\<close> when the value or its message is null or undefined. A response
  carries \<^verbatim>\<open>res.ok\<close>, \<^verbatim>\<open>res.status\<close> and the outcome of \<^verbatim>\<open>res.json()\<close>.
\<close>

datatype json_outcome = JsonRejected "string option" | JsonData json_data

datatype fetch_outcome = FetchRejected "string option" | Response bool nat json_outcome

text \<open>The decimal digits of \<^verbatim>\<open>res.status\<close> in the template literal.\<close>

fun show_nat :: "nat \<Rightarrow> string" where
  "show_nat n =
     (if n < 10 then [''0123456789'' ! n]
      else show_nat (n div 10) @ [''0123456789'' ! (n mod 10)])"

declare show_nat.simps [simp del]

definition error_message :: "js_env \<Rightarrow> js_error \<Rightarrow> string" where
  "error_message env e =
     (case e of TypeError \<Rightarrow> TypeError_message env | RangeError \<Rightarrow> RangeError_message env)"

text \<open>
  The \<^verbatim>\<open>try\<close> block up to \<^verbatim>\<open>normalized\<close>: \<open>Inl\<close> is the message of the value it
  throws.
\<close>

definition try_load :: "js_env \<Rightarrow> fetch_outcome \<Rightarrow> string option + task list" where
  "try_load env outcome =
     (case outcome of
        FetchRejected e \<Rightarrow> Inl e
      | Response ok st body \<Rightarrow>
          if \<not> ok then Inl (Some (''Failed to load tasks.json ('' @ show_nat st @ '')''))
          else (case body of
                  JsonRejected e \<Rightarrow> Inl e
                | JsonData d \<Rightarrow>
                    (case normalizeTasks env d of
                       Inl e \<Rightarrow> Inl (Some (error_message env e))
                     | Inr normalized \<Rightarrow> Inr normalized)))"

text \<open>
  \<^verbatim>\<open>loadTasks\<close>, with \<^verbatim>\<open>generateSalesTasks\<close> of \<^verbatim>\<open>@/utils/seed\<close> as a parameter
  and \<open>isMounted\<close> the value of the flag when the promises have settled.
\<close>

definition loadTasks ::
  "js_env \<Rightarrow> (nat \<Rightarrow> task list) \<Rightarrow> bool \<Rightarrow> fetch_outcome \<Rightarrow> useTasks_state \<Rightarrow> useTasks_state" where
  "loadTasks env generateSalesTasks isMounted outcome s =
     (let s1 =
            (case try_load env outcome of
               Inr normalized \<Rightarrow>
                 let finalData =
                       (if length normalized > 0 then normalized else generateSalesTasks 50)
                 in if isMounted then s\<lparr>tasks := finalData\<rparr> else s
             | Inl e \<Rightarrow>
                 if isMounted
                 then s\<lparr>error := Some (case e of None \<Rightarrow> ''Failed to load tasks'' | Some m \<Rightarrow> m)\<rparr>
                 else s)
      in if isMounted then s1\<lparr>loading := False\<rparr> else s1)"

subsection \<open>Metrics\<close>

record Metrics =
  totalRevenue :: jsnum
  totalTimeTaken :: jsnum
  timeEfficiencyPct :: jsnum
  revenuePerHour :: jsnum
  averageROI :: jsnum
  performanceGrade :: string

definition INITIAL_METRICS :: Metrics where
  "INITIAL_METRICS =
     \<lparr>totalRevenue = Num 0, totalTimeTaken = Num 0, timeEfficiencyPct = Num 0,
      revenuePerHour = Num 0, averageROI = Num 0,
      performanceGrade = ''Needs Improvement''\<rparr>"

text \<open>
  The functions that the hook imports from \<^verbatim>\<open>@/utils/logic\<close>, which is not among the
  sources: they are parameters of \<open>metrics\<close>.
\<close>

record logic =
  computeTotalRevenue :: "task list \<Rightarrow> jsnum"
  computeTimeEfficiency :: "task list \<Rightarrow> jsnum"
  computeRevenuePerHour :: "task list \<Rightarrow> jsnum"
  computeAverageROI :: "task list \<Rightarrow> jsnum"
  computePerformanceGrade :: "jsnum \<Rightarrow> string"

definition metrics :: "logic \<Rightarrow> task list \<Rightarrow> Metrics" where
  "metrics L ts =
     (if length ts = 0 then INITIAL_METRICS
      else
        let totalRevenue' = computeTotalRevenue L ts;
            totalTimeTaken' = foldl (\<lambda>s t. js_add s (ToNumber (timeTaken t))) (Num 0) ts;
            timeEfficiencyPct' = computeTimeEfficiency L ts;
            revenuePerHour' = computeRevenuePerHour L ts;
            averageROI' = computeAverageROI L ts;
            performanceGrade' = computePerformanceGrade L averageROI'
        in \<lparr>totalRevenue = totalRevenue', totalTimeTaken = totalTimeTaken',
            timeEfficiencyPct = timeEfficiencyPct', revenuePerHour = revenuePerHour',
            averageROI = averageROI', performanceGrade = performanceGrade'\<rparr>)"

text \<open>
  Modelled from the spec: \<^verbatim>\<open>computeTotalRevenue\<close> of \<^verbatim>\<open>@/utils/logic\<close> is missing. The
  spec gives \<open>totalRevenue\<close> as the sum of \<open>revenue\<close> over all tasks.
\<close>

definition spec_computeTotalRevenue :: "task list \<Rightarrow> jsnum" where
  "spec_computeTotalRevenue ts = foldl (\<lambda>s t. js_add s (ToNumber (revenue t))) (Num 0) ts"

text \<open>
  Modelled from the spec: \<^verbatim>\<open>computeRevenuePerHour\<close> of \<^verbatim>\<open>@/utils/logic\<close> is missing.
  The spec gives \<open>revenuePerHour\<close> as \<open>totalRevenue / totalTimeTaken\<close>, with
  \<open>totalTimeTaken\<close> the sum of \<open>timeTaken\<close> over all tasks.
\<close>

definition spec_computeRevenuePerHour :: "task list \<Rightarrow> jsnum" where
  "spec_computeRevenuePerHour ts =
     js_div (spec_computeTotalRevenue ts)
       (foldl (\<lambda>s t. js_add s (ToNumber (timeTaken t))) (Num 0) ts)"

text \<open>
  Modelled from the spec: the derivation of \<^verbatim>\<open>@/utils/logic\<close> is missing. The spec gives
  the ROI of a task as \<open>revenue / timeTaken\<close>.
\<close>

definition spec_roi :: "task \<Rightarrow> jsnum" where
  "spec_roi t = js_div (ToNumber (revenue t)) (ToNumber (timeTaken t))"

text \<open>
  Modelled from the spec: \<^verbatim>\<open>computeAverageROI\<close> of \<^verbatim>\<open>@/utils/logic\<close> is missing. The
  spec gives \<open>averageROI\<close> as the arithmetic mean of the ROI of each task.
\<close>

definition spec_computeAverageROI :: "task list \<Rightarrow> jsnum" where
  "spec_computeAverageROI ts =
     js_div (foldl (\<lambda>s t. js_add s (spec_roi t)) (Num 0) ts) (Num (real (length ts)))"

text \<open>
  The imported functions with the three above in place; the two that the spec leaves
  open stay parameters.
\<close>

definition spec_logic :: "(task list \<Rightarrow> jsnum) \<Rightarrow> (jsnum \<Rightarrow> string) \<Rightarrow> logic" where
  "spec_logic eff grade =
     \<lparr>computeTotalRevenue = spec_computeTotalRevenue,
      computeTimeEfficiency = eff,
      computeRevenuePerHour = spec_computeRevenuePerHour,
      computeAverageROI = spec_computeAverageROI,
      computePerformanceGrade = grade\<rparr>"

subsection \<open>Sequences of calls, and the values of the examples\<close>

text \<open>A sequence of calls of \<^verbatim>\<open>updateTask\<close>, each with its clock reading, id and patch.\<close>

fun updateTask_calls ::
  "(timestamp \<times> string option \<times> patch) list \<Rightarrow> useTasks_state \<Rightarrow> useTasks_state" where
  "updateTask_calls [] s = s"
| "updateTask_calls ((now, i, p) # cs) s = updateTask_calls cs (updateTask now i p s)"

text \<open>
  The property of a task that the data model asks for: a positive \<^verbatim>\<open>timeTaken\<close> and a
  finite \<^verbatim>\<open>revenue\<close> that is not negative. A field that is \<^verbatim>\<open>undefined\<close> has
  neither.
\<close>

definition task_ok :: "task \<Rightarrow> bool" where
  "task_ok t =
     (js_gt (ToNumber (timeTaken t)) (Num 0) \<and> isFinite (ToNumber (revenue t)) \<and>
      js_le (Num 0) (ToNumber (revenue t)))"

text \<open>A task with the given id, title, revenue and hours, created at time 1000.\<close>

definition example_task :: "string \<Rightarrow> string \<Rightarrow> real \<Rightarrow> real \<Rightarrow> task" where
  "example_task i ttl r h =
     \<lparr>id' = Some i, title = Some ttl, revenue = Some (Num r), timeTaken = Some (Num h),
      priority = Some ''Medium'', status = Some ''Todo'', notes' = Some [],
      createdAt = Some 1000, completedAt = None\<rparr>"

definition example_state :: "task list \<Rightarrow> useTasks_state" where
  "example_state ts = initial_state\<lparr>tasks := ts, loading := False\<rparr>"

text \<open>The patch \<^verbatim>\<open>{}\<close>.\<close>

definition empty_patch :: patch where
  "empty_patch =
     \<lparr>id_p = None, title_p = None, revenue_p = None, timeTaken_p = None, priority_p = None,
      status_p = None, notes_p = None, createdAt_p = None, completedAt_p = None\<rparr>"

text \<open>An argument of \<^verbatim>\<open>addTask\<close> with the given id, revenue, hours and status.\<close>

definition example_new_task :: "string option \<Rightarrow> jsnum \<Rightarrow> jsnum \<Rightarrow> string \<Rightarrow> new_task" where
  "example_new_task i r h st =
     \<lparr>id_in = i, title_in = ''Call'', revenue_in = r, timeTaken_in = h,
      priority_in = ''High'', status_in = st, notes_in = [], createdAt_in = 0,
      completedAt_in = None\<rparr>"

text \<open>The loaded record \<^verbatim>\<open>{}\<close>.\<close>

definition empty_raw :: raw_task where
  "empty_raw =
     \<lparr>id_raw = None, title_raw = None, revenue_raw = JUndefined, timeTaken_raw = JUndefined,
      priority_raw = None, status_raw = None, notes_raw = None, createdAt_raw = NoDate,
      completedAt_raw = None\<rparr>"

text \<open>
  A runtime whose clock reads 1700000000000, whose identifiers are \<open>u\<close> followed by the
  index, and which reads no string as a number.
\<close>

definition example_env :: js_env where
  "example_env =
     \<lparr>Date_now = 1700000000000, randomUUID = (\<lambda>n. CHR ''u'' # show_nat n),
      StringToNumber = (\<lambda>s. NaN), TypeError_message = ''Cannot read properties of null'',
      RangeError_message = ''Invalid time value''\<rparr>"

text \<open>A generator that returns \<open>n\<close> copies of one task.\<close>

definition example_generator :: "nat \<Rightarrow> task list" where
  "example_generator n = replicate n (example_task ''seed'' ''Generated'' 10 1)"

section \<open>Properties\<close>

subsection \<open>Helper facts about lists\<close>

lemma find_unique:
  "t \<in> set xs \<Longrightarrow> P t \<Longrightarrow> length (filter P xs) = 1 \<Longrightarrow> find P xs = Some t"
proof (induction xs)
  case Nil
  then show ?case by simp
next
  case (Cons x xs)
  show ?case
  proof (cases "P x")
    case True
    with Cons.prems have e: "filter P xs = []" by simp
    have "t = x"
    proof (rule ccontr)
      assume "t \<noteq> x"
      with Cons.prems have "t \<in> set xs" by simp
      with \<open>P t\<close> have "t \<in> set (filter P xs)" by simp
      with e show False by simp
    qed
    with True show ?thesis by simp
  next
    case False
    with Cons show ?thesis by auto
  qed
qed

lemma filter_unique:
  "t \<in> set xs \<Longrightarrow> P t \<Longrightarrow> length (filter P xs) = 1 \<Longrightarrow>
   filter (\<lambda>u. \<not> P u) xs = remove1 t xs"
proof (induction xs)
  case Nil
  then show ?case by simp
next
  case (Cons x xs)
  show ?case
  proof (cases "P x")
    case True
    with Cons.prems have e: "filter P xs = []" by simp
    have tx: "t = x"
    proof (rule ccontr)
      assume "t \<noteq> x"
      with Cons.prems have "t \<in> set xs" by simp
      with \<open>P t\<close> have "t \<in> set (filter P xs)" by simp
      with e show False by simp
    qed
    from e have "\<forall>u\<in>set xs. \<not> P u" by (simp add: filter_empty_conv)
    then have "filter (\<lambda>u. \<not> P u) xs = xs" by simp
    with True tx show ?thesis by simp
  next
    case False
    with Cons.prems have "t \<noteq> x" by auto
    with Cons False show ?thesis by auto
  qed
qed

subsection \<open>\<^verbatim>\<open>updateTask\<close> changes only the tasks with the given id\<close>

lemma tasks_updateTask: "tasks (updateTask now i p s) = map (update_one now i p) (tasks s)"
  by (simp add: updateTask_def)

lemma update_one_other: "id' t \<noteq> i \<Longrightarrow> update_one now i p t = t"
  by (simp add: update_one_def)

lemma map_update_one_absent:
  "\<forall>t\<in>set ts. id' t \<noteq> i \<Longrightarrow> map (update_one now i p) ts = ts"
  by (induction ts) (simp_all add: update_one_other)

text \<open>
  C10: \<^verbatim>\<open>updateTask(id, patch)\<close> keeps the length of the collection; the task at each
  position of the result is the callback's image of the task at that position, so the
  order is kept, and a task whose id differs from the given id is unchanged; when no
  task has the given id the whole state is unchanged.
\<close>

theorem updateTask_frame:
  "length (tasks (updateTask now i p s)) = length (tasks s) \<and>
   (\<forall>k < length (tasks s).
      tasks (updateTask now i p s) ! k = update_one now i p (tasks s ! k) \<and>
      (id' (tasks s ! k) \<noteq> i \<longrightarrow> tasks (updateTask now i p s) ! k = tasks s ! k)) \<and>
   ((\<forall>t\<in>set (tasks s). id' t \<noteq> i) \<longrightarrow> updateTask now i p s = s)"
proof (intro conjI allI impI)
  show "length (tasks (updateTask now i p s)) = length (tasks s)"
    by (simp add: tasks_updateTask)
next
  fix k assume k: "k < length (tasks s)"
  then show "tasks (updateTask now i p s) ! k = update_one now i p (tasks s ! k)"
    by (simp add: tasks_updateTask)
next
  fix k assume k: "k < length (tasks s)" and "id' (tasks s ! k) \<noteq> i"
  then show "tasks (updateTask now i p s) ! k = tasks s ! k"
    by (simp add: tasks_updateTask update_one_other)
next
  assume "\<forall>t\<in>set (tasks s). id' t \<noteq> i"
  then have "map (update_one now i p) (tasks s) = tasks s"
    by (rule map_update_one_absent)
  then show "updateTask now i p s = s"
    by (simp add: updateTask_def)
qed

theorem updateTask_frame_witness:
  "tasks (updateTask 7 (Some ''b'') (empty_patch\<lparr>title_p := Some (Some ''New'')\<rparr>)
      (example_state [example_task ''a'' ''A'' 100 2, example_task ''b'' ''B'' 300 3])) ! 0
     = example_task ''a'' ''A'' 100 2 \<and>
   length (tasks (updateTask 7 (Some ''b'') (empty_patch\<lparr>title_p := Some (Some ''New'')\<rparr>)
      (example_state [example_task ''a'' ''A'' 100 2, example_task ''b'' ''B'' 300 3]))) = 2 \<and>
   updateTask 7 (Some ''z'') (empty_patch\<lparr>title_p := Some (Some ''New'')\<rparr>)
      (example_state [example_task ''a'' ''A'' 100 2, example_task ''b'' ''B'' 300 3])
     = example_state [example_task ''a'' ''A'' 100 2, example_task ''b'' ''B'' 300 3]"
proof -
  let ?p = "empty_patch\<lparr>title_p := Some (Some ''New'')\<rparr>"
  let ?s = "example_state [example_task ''a'' ''A'' 100 2, example_task ''b'' ''B'' 300 3]"
  note b = updateTask_frame [of 7 "Some ''b''" ?p ?s]
  note z = updateTask_frame [of 7 "Some ''z''" ?p ?s]
  have ts: "tasks ?s = [example_task ''a'' ''A'' 100 2, example_task ''b'' ''B'' 300 3]"
    by (simp add: example_state_def)
  have ids: "id' (example_task ''a'' ''A'' 100 2) = Some ''a''"
    "id' (example_task ''b'' ''B'' 300 3) = Some ''b''"
    by (simp_all add: example_task_def)
  have len: "length (tasks (updateTask 7 (Some ''b'') ?p ?s)) = length (tasks ?s)"
    using b by blast
  have "0 < length (tasks ?s) \<longrightarrow> id' (tasks ?s ! 0) \<noteq> Some ''b'' \<longrightarrow>
        tasks (updateTask 7 (Some ''b'') ?p ?s) ! 0 = tasks ?s ! 0"
    using b by blast
  then have first: "tasks (updateTask 7 (Some ''b'') ?p ?s) ! 0 = example_task ''a'' ''A'' 100 2"
    by (simp add: ts ids)
  have "(\<forall>t\<in>set (tasks ?s). id' t \<noteq> Some ''z'') \<longrightarrow> updateTask 7 (Some ''z'') ?p ?s = ?s"
    using z by blast
  then have absent: "updateTask 7 (Some ''z'') ?p ?s = ?s"
    by (simp add: ts ids)
  show ?thesis
    using first len absent by (simp add: ts)
qed

subsection \<open>Delete followed by undo\<close>

lemma undoDelete_closed:
  "lastDeleted s = None \<or> \<not> undoOpen s \<Longrightarrow> undoDelete s = s"
  by (auto simp: undoDelete_def split: option.splits)

text \<open>
  C3, amended: for every collection that contains a task \<open>t\<close> and no other entry with
  the id of \<open>t\<close>, \<^verbatim>\<open>deleteTask(t.id)\<close> followed at once by \<^verbatim>\<open>undoDelete()\<close>
  gives the original tasks with \<open>t\<close> moved to the end, the held value null and the
  undo window closed; \<^verbatim>\<open>undoDelete\<close> with a null held value or a closed window
  changes nothing.
\<close>

theorem delete_undo_restores:
  "(t \<in> set (tasks s) \<and> length (filter (\<lambda>u. id' u = id' t) (tasks s)) = 1 \<longrightarrow>
      undoDelete (deleteTask (id' t) s) =
        s\<lparr>tasks := remove1 t (tasks s) @ [t], lastDeleted := None, undoOpen := False\<rparr>) \<and>
   (lastDeleted s = None \<or> \<not> undoOpen s \<longrightarrow> undoDelete s = s)"
proof (intro conjI impI)
  assume a: "t \<in> set (tasks s) \<and> length (filter (\<lambda>u. id' u = id' t) (tasks s)) = 1"
  have f: "find (\<lambda>u. id' u = id' t) (tasks s) = Some t"
    using a by (intro find_unique) simp_all
  have r: "filter (\<lambda>u. id' u \<noteq> id' t) (tasks s) = remove1 t (tasks s)"
    using filter_unique [of t "tasks s" "\<lambda>u. id' u = id' t"] a by simp
  show "undoDelete (deleteTask (id' t) s) =
        s\<lparr>tasks := remove1 t (tasks s) @ [t], lastDeleted := None, undoOpen := False\<rparr>"
    by (simp add: undoDelete_def deleteTask_def f r)
next
  assume "lastDeleted s = None \<or> \<not> undoOpen s"
  then show "undoDelete s = s" by (rule undoDelete_closed)
qed

theorem delete_undo_restores_witness:
  "tasks (undoDelete (deleteTask (Some ''a'')
      (example_state [example_task ''a'' ''A'' 100 2, example_task ''b'' ''B'' 300 3])))
     = [example_task ''b'' ''B'' 300 3, example_task ''a'' ''A'' 100 2] \<and>
   lastDeleted (undoDelete (deleteTask (Some ''a'')
      (example_state [example_task ''a'' ''A'' 100 2, example_task ''b'' ''B'' 300 3]))) = None \<and>
   undoOpen (undoDelete (deleteTask (Some ''a'')
      (example_state [example_task ''a'' ''A'' 100 2, example_task ''b'' ''B'' 300 3]))) = False \<and>
   undoDelete (example_state [example_task ''a'' ''A'' 100 2]) =
     example_state [example_task ''a'' ''A'' 100 2]"
proof -
  let ?a = "example_task ''a'' ''A'' 100 2"
  let ?b = "example_task ''b'' ''B'' 300 3"
  let ?s = "example_state [?a, ?b]"
  have ts: "tasks ?s = [?a, ?b]"
    by (simp add: example_state_def)
  have ida: "id' ?a = Some ''a''" and idb: "id' ?b = Some ''b''"
    by (simp_all add: example_task_def)
  have ne: "?a \<noteq> ?b"
    by (simp add: example_task_def)
  have pre: "?a \<in> set (tasks ?s) \<and> length (filter (\<lambda>u. id' u = id' ?a) (tasks ?s)) = 1"
    by (simp add: ts ida idb)
  have "undoDelete (deleteTask (id' ?a) ?s) =
        ?s\<lparr>tasks := remove1 ?a (tasks ?s) @ [?a], lastDeleted := None, undoOpen := False\<rparr>"
    using delete_undo_restores [of ?a ?s] pre by blast
  then have 1: "undoDelete (deleteTask (Some ''a'') ?s) =
        ?s\<lparr>tasks := [?b, ?a], lastDeleted := None, undoOpen := False\<rparr>"
    by (simp add: ts ida)
  have "lastDeleted (example_state [?a]) = None"
    by (simp add: example_state_def initial_state_def)
  then have 2: "undoDelete (example_state [?a]) = example_state [?a]"
    using delete_undo_restores [of ?a "example_state [?a]"] by blast
  show ?thesis
    using 2 by (simp add: 1)
qed

text \<open>
  C3 as stated fails when two entries share an id: \<^verbatim>\<open>deleteTask\<close> removes both and
  holds the first, so the undo does not bring the second one back.
\<close>

theorem delete_undo_shared_id_counterexample:
  "example_task ''a'' ''Second'' 300 3 \<in>
     set (tasks (example_state [example_task ''a'' ''First'' 100 2, example_task ''a'' ''Second'' 300 3])) \<and>
   tasks (undoDelete (deleteTask (id' (example_task ''a'' ''Second'' 300 3))
      (example_state [example_task ''a'' ''First'' 100 2, example_task ''a'' ''Second'' 300 3])))
     = [example_task ''a'' ''First'' 100 2] \<and>
   example_task ''a'' ''Second'' 300 3 \<notin>
     set (tasks (undoDelete (deleteTask (id' (example_task ''a'' ''Second'' 300 3))
      (example_state [example_task ''a'' ''First'' 100 2, example_task ''a'' ''Second'' 300 3]))))"
  by (simp add: example_state_def example_task_def initial_state_def deleteTask_def
      undoDelete_def)

subsection \<open>The holding cell has one slot\<close>

lemma find_Some_props: "find P xs = Some x \<Longrightarrow> x \<in> set xs \<and> P x"
  by (induction xs) (auto split: if_splits)

text \<open>
  C4: \<^verbatim>\<open>deleteTask\<close> sets the held value to the first task with the given id (null if
  there is none), whatever was held before, and opens the undo window; a held task was
  in the collection and is no longer. When a delete captures \<open>a\<close> and the next delete
  captures \<open>b\<close>, with no undo between them, \<open>b\<close> is held, \<^verbatim>\<open>undoDelete\<close> appends
  \<open>b\<close>, and \<open>a\<close> is neither in the collection nor held, so a further
  \<^verbatim>\<open>undoDelete\<close> changes nothing. After \<^verbatim>\<open>deleteTask\<close> and \<^verbatim>\<open>clearUndo\<close>,
  \<^verbatim>\<open>undoDelete\<close> changes nothing and the held value is null.
\<close>

theorem single_slot:
  "lastDeleted (deleteTask i s) = find (\<lambda>t. id' t = i) (tasks s) \<and>
   lastDeleted (deleteTask i (s\<lparr>lastDeleted := h\<rparr>)) = lastDeleted (deleteTask i s) \<and>
   undoOpen (deleteTask i s) \<and>
   (lastDeleted (deleteTask i s) = Some d \<longrightarrow>
      d \<in> set (tasks s) \<and> id' d = i \<and> d \<notin> set (tasks (deleteTask i s))) \<and>
   (find (\<lambda>t. id' t = ia) (tasks s) = Some a \<and>
    find (\<lambda>t. id' t = ib) (tasks (deleteTask ia s)) = Some b \<longrightarrow>
      lastDeleted (deleteTask ib (deleteTask ia s)) = Some b \<and>
      tasks (undoDelete (deleteTask ib (deleteTask ia s))) =
        tasks (deleteTask ib (deleteTask ia s)) @ [b] \<and>
      a \<notin> set (tasks (undoDelete (deleteTask ib (deleteTask ia s)))) \<and>
      lastDeleted (undoDelete (deleteTask ib (deleteTask ia s))) = None \<and>
      undoDelete (undoDelete (deleteTask ib (deleteTask ia s))) =
        undoDelete (deleteTask ib (deleteTask ia s))) \<and>
   undoDelete (clearUndo (deleteTask i s)) = clearUndo (deleteTask i s) \<and>
   tasks (clearUndo (deleteTask i s)) = tasks (deleteTask i s) \<and>
   lastDeleted (clearUndo (deleteTask i s)) = None"
proof (intro conjI impI)
  show "lastDeleted (deleteTask i s) = find (\<lambda>t. id' t = i) (tasks s)"
    by (simp add: deleteTask_def)
  show "lastDeleted (deleteTask i (s\<lparr>lastDeleted := h\<rparr>)) = lastDeleted (deleteTask i s)"
    by (simp add: deleteTask_def)
  show "undoOpen (deleteTask i s)"
    by (simp add: deleteTask_def)
  show "undoDelete (clearUndo (deleteTask i s)) = clearUndo (deleteTask i s)"
    by (simp add: undoDelete_closed clearUndo_def)
  show "tasks (clearUndo (deleteTask i s)) = tasks (deleteTask i s)"
    by (simp add: clearUndo_def)
  show "lastDeleted (clearUndo (deleteTask i s)) = None"
    by (simp add: clearUndo_def)
next
  assume "lastDeleted (deleteTask i s) = Some d"
  then have f: "find (\<lambda>t. id' t = i) (tasks s) = Some d"
    by (simp add: deleteTask_def)
  from find_Some_props [OF f] show "d \<in> set (tasks s)" and di: "id' d = i"
    by simp_all
  from di show "d \<notin> set (tasks (deleteTask i s))"
    by (simp add: deleteTask_def)
next
  assume h: "find (\<lambda>t. id' t = ia) (tasks s) = Some a \<and>
    find (\<lambda>t. id' t = ib) (tasks (deleteTask ia s)) = Some b"
  let ?s2 = "deleteTask ib (deleteTask ia s)"
  from h have a: "id' a = ia"
    using find_Some_props [of "\<lambda>t. id' t = ia" "tasks s" a] by simp
  from h have b: "b \<in> set (tasks (deleteTask ia s)) \<and> id' b = ib"
    using find_Some_props [of "\<lambda>t. id' t = ib" "tasks (deleteTask ia s)" b] by simp
  then have ba: "id' b \<noteq> ia"
    by (auto simp: deleteTask_def)
  show held: "lastDeleted ?s2 = Some b"
    using h by (simp add: deleteTask_def)
  have open2: "undoOpen ?s2"
    by (simp add: deleteTask_def)
  show undo: "tasks (undoDelete ?s2) = tasks ?s2 @ [b]"
    using held open2 by (simp add: undoDelete_def)
  have "a \<notin> set (tasks ?s2)"
    using a by (simp add: deleteTask_def)
  moreover have "a \<noteq> b"
    using a ba by auto
  ultimately show "a \<notin> set (tasks (undoDelete ?s2))"
    by (simp add: undo)
  show none: "lastDeleted (undoDelete ?s2) = None"
    using held open2 by (simp add: undoDelete_def)
  show "undoDelete (undoDelete ?s2) = undoDelete ?s2"
    using none by (simp add: undoDelete_closed)
qed

theorem single_slot_witness:
  "lastDeleted (deleteTask (Some ''b'') (deleteTask (Some ''a'')
      (example_state [example_task ''a'' ''A'' 100 2, example_task ''b'' ''B'' 300 3,
         example_task ''c'' ''C'' 50 1]))) = Some (example_task ''b'' ''B'' 300 3) \<and>
   tasks (undoDelete (deleteTask (Some ''b'') (deleteTask (Some ''a'')
      (example_state [example_task ''a'' ''A'' 100 2, example_task ''b'' ''B'' 300 3,
         example_task ''c'' ''C'' 50 1])))) =
     [example_task ''c'' ''C'' 50 1, example_task ''b'' ''B'' 300 3] \<and>
   example_task ''a'' ''A'' 100 2 \<notin> set (tasks (undoDelete (deleteTask (Some ''b'') (deleteTask (Some ''a'')
      (example_state [example_task ''a'' ''A'' 100 2, example_task ''b'' ''B'' 300 3,
         example_task ''c'' ''C'' 50 1])))))"
proof -
  let ?a = "example_task ''a'' ''A'' 100 2"
  let ?b = "example_task ''b'' ''B'' 300 3"
  let ?c = "example_task ''c'' ''C'' 50 1"
  let ?s = "example_state [?a, ?b, ?c]"
  have ids: "id' ?a = Some ''a''" "id' ?b = Some ''b''" "id' ?c = Some ''c''"
    by (simp_all add: example_task_def)
  have ts: "tasks ?s = [?a, ?b, ?c]"
    by (simp add: example_state_def)
  have t1: "tasks (deleteTask (Some ''a'') ?s) = [?b, ?c]"
    by (simp add: deleteTask_def ts ids)
  have t2: "tasks (deleteTask (Some ''b'') (deleteTask (Some ''a'') ?s)) = [?c]"
    by (simp add: deleteTask_def ts ids)
  have pre: "find (\<lambda>t. id' t = Some ''a'') (tasks ?s) = Some ?a \<and>
    find (\<lambda>t. id' t = Some ''b'') (tasks (deleteTask (Some ''a'') ?s)) = Some ?b"
    by (simp add: t1 ts ids)
  note w = single_slot [where s = ?s and ia = "Some ''a''" and a = ?a and ib = "Some ''b''" and b = ?b]
  have 1: "lastDeleted (deleteTask (Some ''b'') (deleteTask (Some ''a'') ?s)) = Some ?b"
    using w pre by blast
  have 2: "tasks (undoDelete (deleteTask (Some ''b'') (deleteTask (Some ''a'') ?s))) =
      tasks (deleteTask (Some ''b'') (deleteTask (Some ''a'') ?s)) @ [?b]"
    using w pre by blast
  have 3: "?a \<notin> set (tasks (undoDelete (deleteTask (Some ''b'') (deleteTask (Some ''a'') ?s))))"
    using w pre by blast
  show ?thesis
    using 1 2 3 by (simp add: t2)
qed

subsection \<open>The id of a task under \<^verbatim>\<open>updateTask\<close>\<close>

lemma id_update_one:
  "id_p p = None \<or> id_p p = Some i \<Longrightarrow> id' (update_one now i p t) = id' t"
  by (auto simp: update_one_def merge_def Let_def)

lemma ids_updateTask:
  "id_p p = None \<or> id_p p = Some i \<Longrightarrow>
   map id' (tasks (updateTask now i p s)) = map id' (tasks s)"
  by (simp add: updateTask_def id_update_one)

text \<open>
  C9, amended: for every collection and every sequence of \<^verbatim>\<open>updateTask\<close> calls whose
  patches carry no \<^verbatim>\<open>id\<close> field (or carry the id the call is made with), the task at
  each position keeps its id.
\<close>

theorem id_retained:
  "(\<forall>(now, i, p) \<in> set cs. id_p p = None \<or> id_p p = Some i) \<Longrightarrow>
   map id' (tasks (updateTask_calls cs s)) = map id' (tasks s)"
proof (induction cs arbitrary: s)
  case Nil
  then show ?case by simp
next
  case (Cons c cs)
  obtain now i p where c: "c = (now, i, p)"
    by (cases c) auto
  from Cons.prems c have here: "id_p p = None \<or> id_p p = Some i"
    by simp
  from Cons.prems have rest: "\<forall>(now, i, p) \<in> set cs. id_p p = None \<or> id_p p = Some i"
    by simp
  have "map id' (tasks (updateTask_calls cs (updateTask now i p s))) =
        map id' (tasks (updateTask now i p s))"
    using rest by (rule Cons.IH)
  with here c show ?case
    by (simp add: ids_updateTask)
qed

theorem id_retained_witness:
  "map id' (tasks (updateTask_calls
      [(5, Some ''a'', empty_patch\<lparr>title_p := Some (Some ''New'')\<rparr>),
       (6, Some ''b'', empty_patch\<lparr>status_p := Some (Some ''Done''), id_p := Some (Some ''b'')\<rparr>)]
      (example_state [example_task ''a'' ''A'' 100 2, example_task ''b'' ''B'' 300 3])))
   = [Some ''a'', Some ''b'']"
proof -
  let ?cs = "[(5, Some ''a'', empty_patch\<lparr>title_p := Some (Some ''New'')\<rparr>),
       (6, Some ''b'', empty_patch\<lparr>status_p := Some (Some ''Done''), id_p := Some (Some ''b'')\<rparr>)]"
  let ?s = "example_state [example_task ''a'' ''A'' 100 2, example_task ''b'' ''B'' 300 3]"
  have pre: "\<forall>(now, i, p) \<in> set ?cs. id_p p = None \<or> id_p p = Some i"
    by (simp add: empty_patch_def)
  have "map id' (tasks (updateTask_calls ?cs ?s)) = map id' (tasks ?s)"
    using pre by (rule id_retained)
  then show ?thesis
    by (simp add: example_state_def example_task_def)
qed

text \<open>
  C9 as stated fails: a patch is a \<^verbatim>\<open>Partial<Task>\<close> and may carry an \<^verbatim>\<open>id\<close>, which
  the spread writes over the id of the task.
\<close>

theorem id_patched_counterexample:
  "id' (tasks (example_state [example_task ''a'' ''A'' 100 2]) ! 0) = Some ''a'' \<and>
   id' (tasks (updateTask_calls [(5, Some ''a'', empty_patch\<lparr>id_p := Some (Some ''b'')\<rparr>)]
      (example_state [example_task ''a'' ''A'' 100 2])) ! 0) = Some ''b''"
  by (simp add: example_state_def example_task_def empty_patch_def updateTask_def
      update_one_def merge_def)

subsection \<open>\<^verbatim>\<open>completedAt\<close> under \<^verbatim>\<open>updateTask\<close>\<close>

lemma completedAt_update_one:
  "status t \<noteq> Some ''Done'' \<Longrightarrow> status (merge t p) = Some ''Done'' \<Longrightarrow>
   completedAt (update_one now (id' t) p t) = Some now"
  by (simp add: update_one_def Let_def)

lemma completedAt_update_one_merged:
  "status t = Some ''Done'' \<or> status (merge t p) \<noteq> Some ''Done'' \<Longrightarrow>
   completedAt (update_one now (id' t) p t) = completedAt (merge t p)"
  by (auto simp: update_one_def Let_def)

lemma createdAt_update_one:
  "createdAt (update_one now (id' t) p t) = createdAt (merge t p)"
  by (simp add: update_one_def Let_def)

text \<open>
  C2, amended: for the task \<open>t\<close> at any position of the collection and every patch, after
  \<^verbatim>\<open>updateTask(t.id, patch)\<close>: if the status of \<open>t\<close> was not Done and the merged
  status is Done, \<^verbatim>\<open>completedAt\<close> is the current time, which is not before
  \<^verbatim>\<open>createdAt\<close> when the merged \<^verbatim>\<open>createdAt\<close> is not after the current time; if
  the status of \<open>t\<close> was Done and the merged status is not Done, \<^verbatim>\<open>completedAt\<close> is
  the merged value, the one the patch carries if it carries one, and otherwise unchanged
  (not cleared).
\<close>

theorem updateTask_completedAt:
  "k < length (tasks s) \<Longrightarrow>
   (status (tasks s ! k) \<noteq> Some ''Done'' \<and> status (merge (tasks s ! k) p) = Some ''Done'' \<longrightarrow>
      completedAt (tasks (updateTask now (id' (tasks s ! k)) p s) ! k) = Some now \<and>
      createdAt (tasks (updateTask now (id' (tasks s ! k)) p s) ! k) =
        createdAt (merge (tasks s ! k) p) \<and>
      (\<forall>c. createdAt (merge (tasks s ! k) p) = Some c \<and> c \<le> now \<longrightarrow>
         createdAt (tasks (updateTask now (id' (tasks s ! k)) p s) ! k) = Some c)) \<and>
   (status (tasks s ! k) = Some ''Done'' \<and> status (merge (tasks s ! k) p) \<noteq> Some ''Done'' \<longrightarrow>
      completedAt (tasks (updateTask now (id' (tasks s ! k)) p s) ! k) =
        (case completedAt_p p of None \<Rightarrow> completedAt (tasks s ! k) | Some v \<Rightarrow> v) \<and>
      (completedAt_p p = None \<longrightarrow>
         completedAt (tasks (updateTask now (id' (tasks s ! k)) p s) ! k) =
           completedAt (tasks s ! k)))"
proof -
  assume k: "k < length (tasks s)"
  let ?t = "tasks s ! k"
  have at: "tasks (updateTask now (id' ?t) p s) ! k = update_one now (id' ?t) p ?t"
    using k by (simp add: tasks_updateTask)
  have m: "completedAt (merge ?t p) =
      (case completedAt_p p of None \<Rightarrow> completedAt ?t | Some v \<Rightarrow> v)"
    by (simp add: merge_def)
  show ?thesis
  proof (intro conjI impI)
    assume d: "status ?t \<noteq> Some ''Done'' \<and> status (merge ?t p) = Some ''Done''"
    then show "completedAt (tasks (updateTask now (id' ?t) p s) ! k) = Some now"
      by (simp add: at completedAt_update_one)
    show "createdAt (tasks (updateTask now (id' ?t) p s) ! k) = createdAt (merge ?t p)"
      by (simp add: at createdAt_update_one)
    then show "\<forall>c. createdAt (merge ?t p) = Some c \<and> c \<le> now \<longrightarrow>
         createdAt (tasks (updateTask now (id' ?t) p s) ! k) = Some c"
      by simp
  next
    assume u: "status ?t = Some ''Done'' \<and> status (merge ?t p) \<noteq> Some ''Done''"
    then have "status ?t = Some ''Done'' \<or> status (merge ?t p) \<noteq> Some ''Done''"
      by simp
    then have c: "completedAt (update_one now (id' ?t) p ?t) = completedAt (merge ?t p)"
      by (rule completedAt_update_one_merged)
    show "completedAt (tasks (updateTask now (id' ?t) p s) ! k) =
        (case completedAt_p p of None \<Rightarrow> completedAt ?t | Some v \<Rightarrow> v)"
      by (simp add: at c m)
    assume "completedAt_p p = None"
    then show "completedAt (tasks (updateTask now (id' ?t) p s) ! k) = completedAt ?t"
      by (simp add: at c m)
  qed
qed


theorem updateTask_completedAt_witness:
  "completedAt (tasks (updateTask 2000 (Some ''a'') (empty_patch\<lparr>status_p := Some (Some ''Done'')\<rparr>)
      (example_state [example_task ''a'' ''A'' 100 2])) ! 0) = Some 2000 \<and>
   createdAt (tasks (updateTask 2000 (Some ''a'') (empty_patch\<lparr>status_p := Some (Some ''Done'')\<rparr>)
      (example_state [example_task ''a'' ''A'' 100 2])) ! 0) = Some 1000 \<and>
   completedAt (tasks (updateTask 3000 (Some ''a'') (empty_patch\<lparr>status_p := Some (Some ''Todo'')\<rparr>)
      (example_state [(example_task ''a'' ''A'' 100 2)
         \<lparr>status := Some ''Done'', completedAt := Some 2000\<rparr>])) ! 0) = Some 2000"
proof -
  let ?a = "example_task ''a'' ''A'' 100 2"
  let ?d = "?a\<lparr>status := Some ''Done'', completedAt := Some 2000\<rparr>"
  let ?p = "empty_patch\<lparr>status_p := Some (Some ''Done'')\<rparr>"
  let ?q = "empty_patch\<lparr>status_p := Some (Some ''Todo'')\<rparr>"
  have ida: "id' ?a = Some ''a''" and idd: "id' ?d = Some ''a''"
    by (simp_all add: example_task_def)
  have ts: "tasks (example_state [?a]) ! 0 = ?a" "tasks (example_state [?d]) ! 0 = ?d"
    by (simp_all add: example_state_def)
  have lena: "0 < length (tasks (example_state [?a]))"
    and lend: "0 < length (tasks (example_state [?d]))"
    by (simp_all add: example_state_def)
  have pa: "status ?a \<noteq> Some ''Done'' \<and> status (merge ?a ?p) = Some ''Done'' \<and>
      createdAt (merge ?a ?p) = Some 1000 \<and> (1000::int) \<le> 2000"
    by (simp add: example_task_def merge_def empty_patch_def)
  have pd: "status ?d = Some ''Done'' \<and> status (merge ?d ?q) \<noteq> Some ''Done'' \<and>
      completedAt_p ?q = None \<and> completedAt ?d = Some 2000"
    by (simp add: example_task_def merge_def empty_patch_def)
  note wa = updateTask_completedAt [of 0 "example_state [?a]" ?p 2000, OF lena, unfolded ts ida]
  note wd = updateTask_completedAt [of 0 "example_state [?d]" ?q 3000, OF lend, unfolded ts idd]
  have 1: "completedAt (tasks (updateTask 2000 (Some ''a'') ?p (example_state [?a])) ! 0) = Some 2000"
    using wa pa by blast
  have 2: "createdAt (tasks (updateTask 2000 (Some ''a'') ?p (example_state [?a])) ! 0) = Some 1000"
    using wa pa by blast
  have 3: "completedAt (tasks (updateTask 3000 (Some ''a'') ?q (example_state [?d])) ! 0) =
      completedAt ?d"
    using wd pd by simp
  show ?thesis
    using 1 2 3 pd by simp
qed

text \<open>
  C2 as stated fails twice. A patch that sets the status to Done and \<^verbatim>\<open>createdAt\<close> to
  a later time leaves \<^verbatim>\<open>completedAt\<close> before \<^verbatim>\<open>createdAt\<close>; a patch that takes the
  status away from Done and carries \<^verbatim>\<open>completedAt: undefined\<close> clears
  \<^verbatim>\<open>completedAt\<close>.
\<close>

theorem updateTask_completedAt_counterexample:
  "completedAt (tasks (updateTask 2000 (Some ''a'')
      (empty_patch\<lparr>status_p := Some (Some ''Done''), createdAt_p := Some (Some 9000)\<rparr>)
      (example_state [example_task ''a'' ''A'' 100 2])) ! 0) = Some 2000 \<and>
   createdAt (tasks (updateTask 2000 (Some ''a'')
      (empty_patch\<lparr>status_p := Some (Some ''Done''), createdAt_p := Some (Some 9000)\<rparr>)
      (example_state [example_task ''a'' ''A'' 100 2])) ! 0) = Some 9000 \<and>
   completedAt (tasks (example_state [(example_task ''a'' ''A'' 100 2)
         \<lparr>status := Some ''Done'', completedAt := Some 2000\<rparr>]) ! 0) = Some 2000 \<and>
   completedAt (tasks (updateTask 3000 (Some ''a'')
      (empty_patch\<lparr>status_p := Some (Some ''Todo''), completedAt_p := Some None\<rparr>)
      (example_state [(example_task ''a'' ''A'' 100 2)
         \<lparr>status := Some ''Done'', completedAt := Some 2000\<rparr>])) ! 0) = None"
  by (simp add: example_state_def example_task_def empty_patch_def updateTask_def
      update_one_def merge_def)

subsection \<open>\<^verbatim>\<open>addTask\<close>\<close>

lemma js_floor_positive:
  "x \<noteq> NaN \<Longrightarrow> js_gt (if js_le x (Num 0) then Num 1 else x) (Num 0)"
  by (cases x) auto

lemma tasks_addTask:
  "tasks (addTask now uuid task s) =
     tasks s @
     [\<lparr>id' = Some (case id_in task of None \<Rightarrow> uuid | Some v \<Rightarrow> v),
       title = Some (title_in task), revenue = Some (revenue_in task),
       timeTaken = Some (if js_le (timeTaken_in task) (Num 0) then Num 1
                         else timeTaken_in task),
       priority = Some (priority_in task), status = Some (status_in task),
       notes' = Some (notes_in task), createdAt = Some now,
       completedAt = (if status_in task = ''Done'' then Some now else None)\<rparr>]"
  by (simp add: addTask_def Let_def)




subsection \<open>The numeric fields after normalization and after a mutation\<close>

lemma normalize_one_numbers:
  "normalize_one env idx r = Inr t \<Longrightarrow>
   \<exists>raw. r = Some raw \<and>
     timeTaken t = Some (if js_gt (Number env (timeTaken_raw raw)) (Num 0)
                         then Number env (timeTaken_raw raw) else Num 1) \<and>
     revenue t = Some (if isFinite (Number env (revenue_raw raw))
                       then Number env (revenue_raw raw) else Num 0)"
  by (auto simp: normalize_one_def split: option.splits sum.splits)

lemma js_le_coerced:
  "js_le (Num 0) (if isFinite x then x else Num 0) \<longleftrightarrow> \<not> (isFinite x \<and> js_gt (Num 0) x)"
  by (cases x) auto

lemma js_gt_not_NaN: "js_gt x y \<Longrightarrow> x \<noteq> NaN"
  by (cases x) auto

lemma normalize_one_sound:
  "normalize_one env idx r = Inr t \<Longrightarrow>
   js_gt (ToNumber (timeTaken t)) (Num 0) \<and> isFinite (ToNumber (revenue t))"
  using normalize_one_numbers [of env idx r t] by auto

lemma normalize_from_origin:
  "normalize_from env idx rs = Inr ts \<Longrightarrow>
   \<forall>t\<in>set ts. \<exists>k r. r \<in> set rs \<and> normalize_one env k r = Inr t"
proof (induction rs arbitrary: idx ts)
  case Nil
  then show ?case by simp
next
  case (Cons r rs)
  from Cons.prems obtain t ts' where
    one: "normalize_one env idx r = Inr t" and
    rest: "normalize_from env (Suc idx) rs = Inr ts'" and
    ts: "ts = t # ts'"
    by (auto split: sum.splits)
  from Cons.IH [OF rest] one ts show ?case
    by (metis list.set_intros(1) list.set_intros(2) set_ConsD)
qed

lemma normalizeTasks_origin:
  "normalizeTasks env input = Inr ts \<Longrightarrow> t \<in> set ts \<Longrightarrow>
   \<exists>k r. normalize_one env k r = Inr t"
  unfolding normalizeTasks_def using normalize_from_origin by blast

lemma revenue_update_one:
  "id' t = i \<Longrightarrow>
   revenue (update_one now i p t) = (case revenue_p p of None \<Rightarrow> revenue t | Some v \<Rightarrow> v)"
  by (simp add: update_one_def Let_def merge_def)

lemma timeTaken_update_one:
  "id' t = i \<Longrightarrow>
   timeTaken (update_one now i p t) =
     (if js_le (ToNumber (case timeTaken_p p of None \<Rightarrow> timeTaken t | Some v \<Rightarrow> v)) (Num 0)
      then Some (Num 1)
      else (case timeTaken_p p of None \<Rightarrow> timeTaken t | Some v \<Rightarrow> v))"
  by (simp add: update_one_def Let_def merge_def)

lemma task_ok_update_one:
  assumes ok: "task_ok t"
    and tt: "\<forall>v. timeTaken_p p = Some v \<longrightarrow> ToNumber v \<noteq> NaN"
    and rv: "\<forall>v. revenue_p p = Some v \<longrightarrow> isFinite (ToNumber v) \<and> js_le (Num 0) (ToNumber v)"
  shows "task_ok (update_one now i p t)"
proof (cases "id' t = i")
  case False
  with ok show ?thesis by (simp add: update_one_def)
next
  case True
  let ?m = "case timeTaken_p p of None \<Rightarrow> timeTaken t | Some v \<Rightarrow> v"
  from ok have old: "ToNumber (timeTaken t) \<noteq> NaN"
    by (auto simp: task_ok_def dest: js_gt_not_NaN)
  have m: "ToNumber ?m \<noteq> NaN"
    using old tt by (cases "timeTaken_p p") simp_all
  have r: "isFinite (ToNumber (case revenue_p p of None \<Rightarrow> revenue t | Some v \<Rightarrow> v)) \<and>
      js_le (Num 0) (ToNumber (case revenue_p p of None \<Rightarrow> revenue t | Some v \<Rightarrow> v))"
    using ok rv by (cases "revenue_p p") (simp_all add: task_ok_def)
  have "js_gt (if js_le (ToNumber ?m) (Num 0) then Num 1 else ToNumber ?m) (Num 0)"
    using m by (rule js_floor_positive)
  then have "js_gt (ToNumber (timeTaken (update_one now i p t))) (Num 0)"
    by (simp add: timeTaken_update_one [OF True] split: if_splits)
  with r show ?thesis
    by (simp add: task_ok_def revenue_update_one [OF True])
qed

text \<open>
  C1, amended: every task of a normalization that returns has a \<^verbatim>\<open>timeTaken\<close> greater
  than 0 and a finite \<^verbatim>\<open>revenue\<close>: a \<^verbatim>\<open>timeTaken\<close> that is missing or not greater
  than 0 becomes 1, a \<^verbatim>\<open>revenue\<close> that is missing or not finite becomes 0, and the
  revenue is not negative unless the loaded revenue is a negative number, which is kept.
  \<^verbatim>\<open>addTask\<close> and \<^verbatim>\<open>updateTask\<close> replace a \<^verbatim>\<open>timeTaken <= 0\<close> by 1 and store the
  revenue as it is given. The task that \<^verbatim>\<open>addTask\<close> appends has a positive
  \<^verbatim>\<open>timeTaken\<close> and a finite, non-negative \<^verbatim>\<open>revenue\<close> when the argument's
  \<^verbatim>\<open>timeTaken\<close> is not NaN and its \<^verbatim>\<open>revenue\<close> is finite and not negative, and the
  tasks before it are unchanged. Under \<^verbatim>\<open>updateTask\<close> a task with another id is
  unchanged; a task with the id of the call gets the revenue of the patch if the patch
  carries one, and it keeps a positive \<^verbatim>\<open>timeTaken\<close> and a finite, non-negative
  \<^verbatim>\<open>revenue\<close> when the patch carries no \<^verbatim>\<open>timeTaken\<close> that is NaN or
  \<^verbatim>\<open>undefined\<close> and no \<^verbatim>\<open>revenue\<close> that is infinite, NaN, negative or
  \<^verbatim>\<open>undefined\<close>.
\<close>

theorem numeric_invariants:
  "(normalizeTasks env input = Inr ts \<longrightarrow>
      (\<forall>t\<in>set ts. js_gt (ToNumber (timeTaken t)) (Num 0) \<and> isFinite (ToNumber (revenue t)))) \<and>
   (normalize_one env idx (Some raw) = Inr t \<longrightarrow>
      (timeTaken_raw raw = JUndefined \<longrightarrow> timeTaken t = Some (Num 1)) \<and>
      (\<not> js_gt (Number env (timeTaken_raw raw)) (Num 0) \<longrightarrow> timeTaken t = Some (Num 1)) \<and>
      (js_gt (Number env (timeTaken_raw raw)) (Num 0) \<longrightarrow>
         timeTaken t = Some (Number env (timeTaken_raw raw))) \<and>
      (revenue_raw raw = JUndefined \<longrightarrow> revenue t = Some (Num 0)) \<and>
      (\<not> isFinite (Number env (revenue_raw raw)) \<longrightarrow> revenue t = Some (Num 0)) \<and>
      (isFinite (Number env (revenue_raw raw)) \<longrightarrow>
         revenue t = Some (Number env (revenue_raw raw))) \<and>
      (task_ok t \<longleftrightarrow>
         \<not> (isFinite (Number env (revenue_raw raw)) \<and>
            js_gt (Num 0) (Number env (revenue_raw raw))))) \<and>
   (timeTaken_in task \<noteq> NaN \<and> isFinite (revenue_in task) \<and> js_le (Num 0) (revenue_in task) \<longrightarrow>
      task_ok (last (tasks (addTask now uuid task s)))) \<and>
   butlast (tasks (addTask now uuid task s)) = tasks s \<and>
   revenue (last (tasks (addTask now uuid task s))) = Some (revenue_in task) \<and>
   timeTaken (last (tasks (addTask now uuid task s))) =
     Some (if js_le (timeTaken_in task) (Num 0) then Num 1 else timeTaken_in task) \<and>
   (k < length (tasks s) \<longrightarrow>
      (id' (tasks s ! k) \<noteq> i \<longrightarrow> tasks (updateTask now i p s) ! k = tasks s ! k) \<and>
      (id' (tasks s ! k) = i \<longrightarrow>
         revenue (tasks (updateTask now i p s) ! k) =
           (case revenue_p p of None \<Rightarrow> revenue (tasks s ! k) | Some v \<Rightarrow> v) \<and>
         timeTaken (tasks (updateTask now i p s) ! k) =
           (if js_le (ToNumber (case timeTaken_p p of None \<Rightarrow> timeTaken (tasks s ! k)
                                 | Some v \<Rightarrow> v)) (Num 0)
            then Some (Num 1)
            else (case timeTaken_p p of None \<Rightarrow> timeTaken (tasks s ! k) | Some v \<Rightarrow> v))) \<and>
      (task_ok (tasks s ! k) \<and>
       (\<forall>v. timeTaken_p p = Some v \<longrightarrow> ToNumber v \<noteq> NaN) \<and>
       (\<forall>v. revenue_p p = Some v \<longrightarrow> isFinite (ToNumber v) \<and> js_le (Num 0) (ToNumber v)) \<longrightarrow>
         task_ok (tasks (updateTask now i p s) ! k)))"
proof (intro conjI impI ballI)
  fix u assume "normalizeTasks env input = Inr ts" and "u \<in> set ts"
  then obtain j r where "normalize_one env j r = Inr u"
    using normalizeTasks_origin by blast
  then have "js_gt (ToNumber (timeTaken u)) (Num 0) \<and> isFinite (ToNumber (revenue u))"
    by (rule normalize_one_sound)
  then show "js_gt (ToNumber (timeTaken u)) (Num 0)" and "isFinite (ToNumber (revenue u))"
    by simp_all
next
  assume n: "normalize_one env idx (Some raw) = Inr t"
  from normalize_one_numbers [OF n] have
    tt: "timeTaken t = Some (if js_gt (Number env (timeTaken_raw raw)) (Num 0)
                    then Number env (timeTaken_raw raw) else Num 1)" and
    rv: "revenue t = Some (if isFinite (Number env (revenue_raw raw))
                  then Number env (revenue_raw raw) else Num 0)"
    by simp_all
  show "task_ok t \<longleftrightarrow>
         \<not> (isFinite (Number env (revenue_raw raw)) \<and>
            js_gt (Num 0) (Number env (revenue_raw raw)))"
    unfolding task_ok_def
    using normalize_one_sound [OF n] js_le_coerced [of "Number env (revenue_raw raw)"]
    by (simp add: rv)
  {
    assume "timeTaken_raw raw = JUndefined"
    then show "timeTaken t = Some (Num 1)" by (simp add: tt)
  }
  {
    assume "\<not> js_gt (Number env (timeTaken_raw raw)) (Num 0)"
    then show "timeTaken t = Some (Num 1)" by (simp add: tt)
  }
  {
    assume "js_gt (Number env (timeTaken_raw raw)) (Num 0)"
    then show "timeTaken t = Some (Number env (timeTaken_raw raw))" by (simp add: tt)
  }
  {
    assume "revenue_raw raw = JUndefined"
    then show "revenue t = Some (Num 0)" by (simp add: rv)
  }
  {
    assume "\<not> isFinite (Number env (revenue_raw raw))"
    then show "revenue t = Some (Num 0)" by (simp add: rv)
  }
  {
    assume "isFinite (Number env (revenue_raw raw))"
    then show "revenue t = Some (Number env (revenue_raw raw))" by (simp add: rv)
  }
next
  assume a: "timeTaken_in task \<noteq> NaN \<and> isFinite (revenue_in task) \<and>
    js_le (Num 0) (revenue_in task)"
  then have "js_gt (if js_le (timeTaken_in task) (Num 0) then Num 1 else timeTaken_in task)
      (Num 0)"
    by (simp add: js_floor_positive)
  with a show "task_ok (last (tasks (addTask now uuid task s)))"
    by (simp add: tasks_addTask task_ok_def)
next
  show "butlast (tasks (addTask now uuid task s)) = tasks s"
    by (simp add: tasks_addTask)
  show "revenue (last (tasks (addTask now uuid task s))) = Some (revenue_in task)"
    by (simp add: tasks_addTask)
  show "timeTaken (last (tasks (addTask now uuid task s))) =
     Some (if js_le (timeTaken_in task) (Num 0) then Num 1 else timeTaken_in task)"
    by (simp add: tasks_addTask)
next
  assume k: "k < length (tasks s)"
  then have at: "tasks (updateTask now i p s) ! k = update_one now i p (tasks s ! k)"
    by (simp add: tasks_updateTask)
  {
    assume "id' (tasks s ! k) \<noteq> i"
    then show "tasks (updateTask now i p s) ! k = tasks s ! k"
      by (simp add: at update_one_other)
  }
  {
    assume same: "id' (tasks s ! k) = i"
    show "revenue (tasks (updateTask now i p s) ! k) =
           (case revenue_p p of None \<Rightarrow> revenue (tasks s ! k) | Some v \<Rightarrow> v)"
      by (simp only: at revenue_update_one [OF same])
    show "timeTaken (tasks (updateTask now i p s) ! k) =
           (if js_le (ToNumber (case timeTaken_p p of None \<Rightarrow> timeTaken (tasks s ! k)
                                 | Some v \<Rightarrow> v)) (Num 0)
            then Some (Num 1)
            else (case timeTaken_p p of None \<Rightarrow> timeTaken (tasks s ! k) | Some v \<Rightarrow> v))"
      by (simp only: at timeTaken_update_one [OF same])
  }
  {
    assume a: "task_ok (tasks s ! k) \<and>
       (\<forall>v. timeTaken_p p = Some v \<longrightarrow> ToNumber v \<noteq> NaN) \<and>
       (\<forall>v. revenue_p p = Some v \<longrightarrow> isFinite (ToNumber v) \<and> js_le (Num 0) (ToNumber v))"
    then have "task_ok (update_one now i p (tasks s ! k))"
      by (intro task_ok_update_one) simp_all
    then show "task_ok (tasks (updateTask now i p s) ! k)"
      by (simp only: at)
  }
qed

theorem numeric_invariants_witness:
  "normalizeTasks example_env
      (JArray [Some (empty_raw\<lparr>id_raw := Some ''a'', revenue_raw := JNumber PosInf,
                                timeTaken_raw := JNumber (Num 0)\<rparr>)]) =
     Inr [\<lparr>id' = Some ''a'', title = Some ''Untitled Task'', revenue = Some (Num 0),
           timeTaken = Some (Num 1), priority = Some ''Medium'', status = Some ''Todo'',
           notes' = Some [], createdAt = Some 1699913600000, completedAt = None\<rparr>] \<and>
   js_gt (ToNumber (timeTaken
          \<lparr>id' = Some ''a'', title = Some ''Untitled Task'', revenue = Some (Num 0),
           timeTaken = Some (Num 1), priority = Some ''Medium'', status = Some ''Todo'',
           notes' = Some [], createdAt = Some 1699913600000, completedAt = None\<rparr>)) (Num 0) \<and>
   isFinite (ToNumber (revenue
          \<lparr>id' = Some ''a'', title = Some ''Untitled Task'', revenue = Some (Num 0),
           timeTaken = Some (Num 1), priority = Some ''Medium'', status = Some ''Todo'',
           notes' = Some [], createdAt = Some 1699913600000, completedAt = None\<rparr>)) \<and>
   task_ok (last (tasks (addTask 5000 ''u7'' (example_new_task None (Num 250) (Num 0) ''Todo'')
      (example_state [example_task ''a'' ''A'' 100 2])))) \<and>
   task_ok (tasks (updateTask 5000 (Some ''a'')
      (empty_patch\<lparr>timeTaken_p := Some (Some (Num (-2))), revenue_p := Some (Some (Num 40))\<rparr>)
      (example_state [example_task ''a'' ''A'' 100 2])) ! 0) \<and>
   tasks (updateTask 5000 (Some ''b'')
      (empty_patch\<lparr>timeTaken_p := Some (Some (Num (-2))), revenue_p := Some (Some (Num 40))\<rparr>)
      (example_state [example_task ''a'' ''A'' 100 2])) ! 0 = example_task ''a'' ''A'' 100 2"
proof -
  let ?raw = "empty_raw\<lparr>id_raw := Some ''a'', revenue_raw := JNumber PosInf,
                        timeTaken_raw := JNumber (Num 0)\<rparr>"
  let ?t = "\<lparr>id' = Some ''a'', title = Some ''Untitled Task'', revenue = Some (Num 0),
           timeTaken = Some (Num 1), priority = Some ''Medium'', status = Some ''Todo'',
           notes' = Some [], createdAt = Some 1699913600000, completedAt = None\<rparr>"
  let ?n = "example_new_task None (Num 250) (Num 0) ''Todo''"
  let ?p = "empty_patch\<lparr>timeTaken_p := Some (Some (Num (-2))),
              revenue_p := Some (Some (Num 40))\<rparr>"
  let ?s = "example_state [example_task ''a'' ''A'' 100 2]"
  have one: "normalize_one example_env 0 (Some ?raw) = Inr ?t"
    by (simp add: normalize_one_def created_of_def completed_of_def toISOString_def
        Date_new_def example_env_def empty_raw_def)
  then have norm: "normalizeTasks example_env (JArray [Some ?raw]) = Inr [?t]"
    by (simp add: normalizeTasks_def)
  have n: "timeTaken_in ?n \<noteq> NaN \<and> isFinite (revenue_in ?n) \<and> js_le (Num 0) (revenue_in ?n)"
    by (simp add: example_new_task_def)
  have len: "0 < length (tasks ?s)" and at0: "tasks ?s ! 0 = example_task ''a'' ''A'' 100 2"
    by (simp_all add: example_state_def)
  have ida: "id' (tasks ?s ! 0) = Some ''a''" "id' (tasks ?s ! 0) \<noteq> Some ''b''"
    unfolding at0 by (simp_all add: example_task_def)
  have p: "task_ok (tasks ?s ! 0) \<and>
      (\<forall>v. timeTaken_p ?p = Some v \<longrightarrow> ToNumber v \<noteq> NaN) \<and>
      (\<forall>v. revenue_p ?p = Some v \<longrightarrow> isFinite (ToNumber v) \<and> js_le (Num 0) (ToNumber v))"
    unfolding at0 by (auto simp: example_task_def task_ok_def empty_patch_def)
  note w = numeric_invariants [where env = example_env and input = "JArray [Some ?raw]"
      and ts = "[?t]" and task = ?n and now = 5000 and uuid = "''u7''" and s = ?s
      and k = 0 and p = ?p]
  have "\<forall>t\<in>set [?t]. js_gt (ToNumber (timeTaken t)) (Num 0) \<and> isFinite (ToNumber (revenue t))"
    using w norm by blast
  then have 0: "js_gt (ToNumber (timeTaken ?t)) (Num 0) \<and> isFinite (ToNumber (revenue ?t))"
    by simp
  have 1: "task_ok (last (tasks (addTask 5000 ''u7'' ?n ?s)))"
    using w n by blast
  have 2: "task_ok (tasks (updateTask 5000 (Some ''a'') ?p ?s) ! 0)"
    using w [where i = "Some ''a''"] p len by blast
  have "tasks (updateTask 5000 (Some ''b'') ?p ?s) ! 0 = tasks ?s ! 0"
    using w [where i = "Some ''b''"] ida len by blast
  then have 3: "tasks (updateTask 5000 (Some ''b'') ?p ?s) ! 0 = example_task ''a'' ''A'' 100 2"
    by (simp only: at0)
  show ?thesis
    using norm 0 1 2 3 by blast
qed

text \<open>
  C1 as stated fails: normalization keeps a loaded revenue of -5; \<^verbatim>\<open>addTask\<close> keeps a
  \<^verbatim>\<open>timeTaken\<close> of NaN and an infinite revenue; \<^verbatim>\<open>updateTask\<close> stores a negative
  revenue from the patch, and a \<^verbatim>\<open>timeTaken\<close> that the patch carries as
  \<^verbatim>\<open>undefined\<close>.
\<close>

theorem numeric_invariants_counterexample:
  "normalizeTasks example_env
      (JArray [Some (empty_raw\<lparr>id_raw := Some ''a'', revenue_raw := JNumber (Num (-5))\<rparr>)]) =
     Inr [\<lparr>id' = Some ''a'', title = Some ''Untitled Task'', revenue = Some (Num (-5)),
           timeTaken = Some (Num 1), priority = Some ''Medium'', status = Some ''Todo'',
           notes' = Some [], createdAt = Some 1699913600000, completedAt = None\<rparr>] \<and>
   \<not> js_le (Num 0) (Num (-5)) \<and>
   timeTaken (last (tasks (addTask 5000 ''u7'' (example_new_task None PosInf NaN ''Todo'')
      (example_state [])))) = Some NaN \<and>
   revenue (last (tasks (addTask 5000 ''u7'' (example_new_task None PosInf NaN ''Todo'')
      (example_state [])))) = Some PosInf \<and>
   \<not> js_gt NaN (Num 0) \<and> \<not> isFinite PosInf \<and>
   revenue (tasks (updateTask 5000 (Some ''a'')
      (empty_patch\<lparr>revenue_p := Some (Some (Num (-1)))\<rparr>)
      (example_state [example_task ''a'' ''A'' 100 2])) ! 0) = Some (Num (-1)) \<and>
   \<not> js_le (Num 0) (Num (-1)) \<and>
   timeTaken (tasks (updateTask 5000 (Some ''a'') (empty_patch\<lparr>timeTaken_p := Some None\<rparr>)
      (example_state [example_task ''a'' ''A'' 100 2])) ! 0) = None \<and>
   \<not> js_gt (ToNumber None) (Num 0)"
  by (simp add: normalizeTasks_def normalize_one_def created_of_def completed_of_def
      toISOString_def Date_new_def example_env_def empty_raw_def addTask_def
      example_new_task_def example_state_def initial_state_def updateTask_def update_one_def
      merge_def empty_patch_def example_task_def)

subsection \<open>The arithmetic of doubles\<close>

text \<open>An integer of at most 53 bits is a double: rounding leaves it as it is.\<close>

lemma round_half_even_int: "round_half_even (of_int m) = m"
  by (simp add: round_half_even_def)

lemma floor_log2_bounds:
  assumes "1 \<le> a" and "a \<le> 2 ^ 53"
  shows "0 \<le> \<lfloor>log 2 a\<rfloor> \<and> \<lfloor>log 2 a\<rfloor> \<le> 53"
proof -
  have "0 \<le> log 2 a"
    using assms by simp
  then have k0: "0 \<le> \<lfloor>log 2 a\<rfloor>"
    by simp
  have "log 2 a \<le> 53"
    using assms by (simp add: log_le_iff)
  then have "\<lfloor>log 2 a\<rfloor> \<le> 53"
    by linarith
  with k0 show ?thesis by simp
qed

lemma round_double_int:
  assumes "\<bar>real_of_int m\<bar> \<le> 2 ^ 53"
  shows "round_double (of_int m) = Num (of_int m)"
proof (cases "m = 0")
  case True
  then show ?thesis by (simp add: round_double_def)
next
  case False
  define a where "a = \<bar>real_of_int m\<bar>"
  define k where "k = \<lfloor>log 2 a\<rfloor>"
  have a1: "1 \<le> a"
    using False by (simp add: a_def)
  have a2: "a \<le> 2 ^ 53"
    using assms by (simp add: a_def)
  from floor_log2_bounds [OF a1 a2] have k: "0 \<le> k" "k \<le> 53"
    by (simp_all add: k_def)
  have mx: "max (k - 52) (- 1074) = k - 52"
    using k by simp
  have q: "quantum a = 2 powr real_of_int (k - 52)"
    unfolding quantum_def k_def [symmetric] mx ..
  have pw: "(2::real) powr real_of_int (k - 52) =
      (if 0 \<le> k - 52 then 2 ^ nat (k - 52) else inverse (2 ^ nat (- (k - 52))))"
    by (rule powr_real_of_int) simp
  have r: "of_int (round_half_even (a / quantum a)) * quantum a = a"
  proof (cases "k \<le> 52")
    case True
    define n where "n = nat (52 - k)"
    have "(if 0 \<le> k - 52 then 2 ^ nat (k - 52) else inverse (2 ^ nat (- (k - 52)))) =
        1 / (2::real) ^ n"
      using True by (auto simp: n_def inverse_eq_divide)
    with pw have qn: "quantum a = 1 / 2 ^ n"
      by (simp only: q)
    have "a / quantum a = a * 2 ^ n"
      unfolding qn by simp
    also have "\<dots> = of_int (\<bar>m\<bar> * 2 ^ n)"
      by (simp add: a_def)
    finally have "round_half_even (a / quantum a) = \<bar>m\<bar> * 2 ^ n"
      by (simp only: round_half_even_int)
    then have "of_int (round_half_even (a / quantum a)) * quantum a =
        of_int (\<bar>m\<bar> * 2 ^ n) * (1 / 2 ^ n)"
      unfolding qn by simp
    also have "\<dots> = a"
      by (simp add: a_def)
    finally show ?thesis .
  next
    case False
    with k have k53: "k = 53" by simp
    have "2 powr of_int k \<le> a"
      using a1 floor_log_eq_powr_iff [of a 2 k] by (simp add: k_def)
    then have "2 ^ 53 \<le> a"
      by (simp add: k53)
    with a2 have a53: "a = 2 ^ 53" by simp
    from pw have q2: "quantum a = 2"
      by (simp add: q k53)
    have "a / quantum a = of_int (2 ^ 52)"
      unfolding q2 by (simp add: a53)
    then have "round_half_even (a / quantum a) = 2 ^ 52"
      by (simp only: round_half_even_int)
    then have "of_int (round_half_even (a / quantum a)) * quantum a = of_int (2 ^ 52) * 2"
      unfolding q2 by simp
    also have "\<dots> = a"
      by (simp add: a53)
    finally show ?thesis .
  qed
  have lt: "\<not> (2::real) ^ 1024 \<le> a"
  proof -
    have "(2::real) ^ 53 < 2 ^ 1024"
      by (rule power_strict_increasing) simp_all
    with a2 show ?thesis by linarith
  qed
  have "round_double (of_int m) = Num (if 0 < real_of_int m then a else - a)"
    using False lt by (simp add: round_double_def Let_def r a_def [symmetric])
  also have "(if 0 < real_of_int m then a else - a) = of_int m"
    by (simp add: a_def)
  finally show ?thesis .
qed

lemma round_double_small:
  "round_double 2 = Num 2" "round_double 5 = Num 5" "round_double 50 = Num 50"
  "round_double 75 = Num 75" "round_double 80 = Num 80" "round_double 100 = Num 100"
  "round_double 150 = Num 150" "round_double 400 = Num 400"
  using round_double_int [of 2] round_double_int [of 5] round_double_int [of 50]
    round_double_int [of 75] round_double_int [of 80] round_double_int [of 100]
    round_double_int [of 150] round_double_int [of 400]
  by simp_all

lemma quantum_at:
  assumes "0 < a" and "2 powr of_int k \<le> a" and "a < 2 powr of_int (k + 1)" and "- 1022 \<le> k"
  shows "quantum a = 2 powr of_int (k - 52)"
proof -
  have "\<lfloor>log 2 a\<rfloor> = k"
    using assms floor_log_eq_powr_iff [of a 2 k] by simp
  moreover have "max (k - 52) (- 1074) = k - 52"
    using assms by simp
  ultimately show ?thesis
    by (simp only: quantum_def)
qed

text \<open>\<^verbatim>\<open>2 ** 1023 + 2 ** 1023\<close> is \<^verbatim>\<open>Infinity\<close>.\<close>

lemma js_add_overflow: "js_add (Num (2 ^ 1023)) (Num (2 ^ 1023)) = PosInf"
proof -
  let ?a = "(2::real) ^ 1024"
  have s: "(2::real) ^ 1023 + 2 ^ 1023 = ?a"
    by simp
  have p: "(2::real) powr of_int 1024 = ?a" "(2::real) powr of_int (1024 + 1) = 2 ^ 1025"
    "(2::real) powr of_int (1024 - 52) = 2 ^ 972"
    by (simp_all add: powr_realpow [symmetric])
  have q: "quantum ?a = 2 ^ 972"
    using quantum_at [of ?a 1024] p by simp
  have "?a / 2 ^ 972 = real_of_int (2 ^ 52)"
    by simp
  then have "round_half_even (?a / quantum ?a) = 2 ^ 52"
    unfolding q by (simp only: round_half_even_def) simp
  then have "of_int (round_half_even (?a / quantum ?a)) * quantum ?a = ?a"
    unfolding q by simp
  then have "round_double ?a = PosInf"
    by (simp add: round_double_def Let_def)
  then show ?thesis
    by (simp only: js_add.simps s)
qed


text \<open>
  \<^verbatim>\<open>0.1 + 0.2\<close>, the sum of the doubles nearest to 0.1 and to 0.2, is the double
  \<^verbatim>\<open>0.30000000000000004\<close>, not the exact sum.
\<close>

lemma js_add_rounds:
  "js_add (Num (3602879701896397 / 2 ^ 55)) (Num (3602879701896397 / 2 ^ 54)) =
     Num (5404319552844596 / 2 ^ 54)"
proof -
  let ?x = "(10808639105689191::real) / 2 ^ 55"
  have s: "(3602879701896397::real) / 2 ^ 55 + 3602879701896397 / 2 ^ 54 = ?x"
    by simp
  have p: "(2::real) powr of_int (- 2) = 1 / 2 ^ 2" "(2::real) powr of_int (- 2 + 1) = 1 / 2"
    "(2::real) powr of_int (- 2 - 52) = 1 / 2 ^ 54"
    by (simp_all add: powr_minus_divide)
  have q: "quantum ?x = 1 / 2 ^ 54"
    using quantum_at [of ?x "- 2"] p by simp
  have d: "?x / (1 / 2 ^ 54) = 5404319552844595 + 1 / 2"
    by simp
  have f: "\<lfloor>(5404319552844595::real) + 1 / 2\<rfloor> = 5404319552844595"
    by linarith
  have "round_half_even (?x / quantum ?x) = 5404319552844596"
    unfolding q d by (simp add: round_half_even_def f Let_def)
  then have r: "of_int (round_half_even (?x / quantum ?x)) * quantum ?x =
      5404319552844596 / 2 ^ 54"
    unfolding q by simp
  have "(5404319552844596::real) / 2 ^ 54 < 1"
    by simp
  also have "(1::real) \<le> 2 ^ 1024"
    by simp
  finally have lt: "\<not> (2::real) ^ 1024 \<le> 5404319552844596 / 2 ^ 54"
    by simp
  have ax: "\<bar>?x\<bar> = ?x"
    by simp
  have "round_double ?x = Num (5404319552844596 / 2 ^ 54)"
    unfolding round_double_def Let_def ax r using lt by simp
  then show ?thesis
    by (simp only: js_add.simps s)
qed

lemma js_add_not_exact:
  "js_add (Num (3602879701896397 / 2 ^ 55)) (Num (3602879701896397 / 2 ^ 54)) \<noteq>
     Num (3602879701896397 / 2 ^ 55 + 3602879701896397 / 2 ^ 54)"
  unfolding js_add_rounds by simp

subsection \<open>Metrics\<close>

text \<open>
  C8: over the empty collection \<open>metrics\<close> returns \<open>INITIAL_METRICS\<close>, whatever the
  imported functions are: every numeric field is 0 and the grade is
  \<^verbatim>\<open>'Needs Improvement'\<close>. The result comes from the test on the length, before any of
  the imported functions is called.
\<close>

theorem metrics_empty:
  "metrics L [] = INITIAL_METRICS \<and>
   totalRevenue (metrics L []) = Num 0 \<and>
   totalTimeTaken (metrics L []) = Num 0 \<and>
   timeEfficiencyPct (metrics L []) = Num 0 \<and>
   revenuePerHour (metrics L []) = Num 0 \<and>
   averageROI (metrics L []) = Num 0 \<and>
   performanceGrade (metrics L []) = ''Needs Improvement''"
  by (simp add: metrics_def INITIAL_METRICS_def)

lemma metrics_fields:
  "ts \<noteq> [] \<Longrightarrow>
   averageROI (metrics L ts) = computeAverageROI L ts \<and>
   revenuePerHour (metrics L ts) = computeRevenuePerHour L ts \<and>
   totalRevenue (metrics L ts) = computeTotalRevenue L ts \<and>
   totalTimeTaken (metrics L ts) =
     foldl (\<lambda>s t. js_add s (ToNumber (timeTaken t))) (Num 0) ts"
  by (simp add: metrics_def Let_def)

text \<open>
  C7: with the imported functions as the spec gives them, for every collection that is
  not empty the field \<open>averageROI\<close> of the metrics is the mean of the ratios
  \<open>revenue / timeTaken\<close> of the tasks, their sum divided by their number, and the field
  \<open>revenuePerHour\<close> is \<open>totalRevenue / totalTimeTaken\<close>, the sum of the revenues
  divided by the sum of the hours; the sums and quotients are those of the numbers of
  the program, rounded to doubles. For two tasks with revenue 100 in 2 hours and revenue
  300 in 3 hours, the ratios are 50 and 100, \<open>averageROI\<close> is 75 and
  \<open>revenuePerHour\<close> is 80.
\<close>

theorem metrics_ratios:
  "ts \<noteq> [] \<Longrightarrow>
   averageROI (metrics (spec_logic eff grade) ts) =
     js_div (foldl (\<lambda>s t. js_add s (js_div (ToNumber (revenue t)) (ToNumber (timeTaken t))))
               (Num 0) ts)
            (Num (real (length ts))) \<and>
   revenuePerHour (metrics (spec_logic eff grade) ts) =
     js_div (totalRevenue (metrics (spec_logic eff grade) ts))
            (totalTimeTaken (metrics (spec_logic eff grade) ts)) \<and>
   totalRevenue (metrics (spec_logic eff grade) ts) =
     foldl (\<lambda>s t. js_add s (ToNumber (revenue t))) (Num 0) ts \<and>
   totalTimeTaken (metrics (spec_logic eff grade) ts) =
     foldl (\<lambda>s t. js_add s (ToNumber (timeTaken t))) (Num 0) ts \<and>
   (revenue a = Some (Num 100) \<and> timeTaken a = Some (Num 2) \<and>
    revenue b = Some (Num 300) \<and> timeTaken b = Some (Num 3) \<longrightarrow>
      spec_roi a = Num 50 \<and> spec_roi b = Num 100 \<and>
      averageROI (metrics (spec_logic eff grade) [a, b]) = Num 75 \<and>
      revenuePerHour (metrics (spec_logic eff grade) [a, b]) = Num 80 \<and>
      averageROI (metrics (spec_logic eff grade) [a, b]) \<noteq>
        revenuePerHour (metrics (spec_logic eff grade) [a, b]))"
proof -
  assume ne: "ts \<noteq> []"
  let ?L = "spec_logic eff grade"
  have L: "computeAverageROI ?L = spec_computeAverageROI"
    "computeRevenuePerHour ?L = spec_computeRevenuePerHour"
    "computeTotalRevenue ?L = spec_computeTotalRevenue"
    by (simp_all add: spec_logic_def)
  note f = metrics_fields [OF ne, of ?L, unfolded L]
  have roi: "(\<lambda>s t. js_add s (spec_roi t)) =
      (\<lambda>s t. js_add s (js_div (ToNumber (revenue t)) (ToNumber (timeTaken t))))"
    by (simp add: spec_roi_def)
  have avg: "averageROI (metrics ?L ts) =
      js_div (foldl (\<lambda>s t. js_add s (js_div (ToNumber (revenue t)) (ToNumber (timeTaken t))))
                (Num 0) ts)
             (Num (real (length ts)))"
    using f by (simp add: spec_computeAverageROI_def roi)
  have ratio: "revenuePerHour (metrics ?L ts) =
      js_div (totalRevenue (metrics ?L ts)) (totalTimeTaken (metrics ?L ts))"
    using f by (simp add: spec_computeRevenuePerHour_def)
  have tr: "totalRevenue (metrics ?L ts) =
      foldl (\<lambda>s t. js_add s (ToNumber (revenue t))) (Num 0) ts"
    using f by (simp add: spec_computeTotalRevenue_def)
  have tt: "totalTimeTaken (metrics ?L ts) =
      foldl (\<lambda>s t. js_add s (ToNumber (timeTaken t))) (Num 0) ts"
    using f by simp
  have ex: "revenue a = Some (Num 100) \<and> timeTaken a = Some (Num 2) \<and>
      revenue b = Some (Num 300) \<and> timeTaken b = Some (Num 3) \<longrightarrow>
      spec_roi a = Num 50 \<and> spec_roi b = Num 100 \<and>
      averageROI (metrics ?L [a, b]) = Num 75 \<and>
      revenuePerHour (metrics ?L [a, b]) = Num 80 \<and>
      averageROI (metrics ?L [a, b]) \<noteq> revenuePerHour (metrics ?L [a, b])"
    by (simp add: metrics_def Let_def spec_logic_def spec_computeAverageROI_def
        spec_computeRevenuePerHour_def spec_computeTotalRevenue_def spec_roi_def
        round_double_small)
  from avg ratio tr tt ex show ?thesis
    by blast
qed

theorem metrics_ratios_witness:
  "averageROI (metrics (spec_logic (\<lambda>ts. Num 0) (\<lambda>r. ''Good''))
      [example_task ''a'' ''A'' 100 2, example_task ''b'' ''B'' 300 3]) = Num 75 \<and>
   revenuePerHour (metrics (spec_logic (\<lambda>ts. Num 0) (\<lambda>r. ''Good''))
      [example_task ''a'' ''A'' 100 2, example_task ''b'' ''B'' 300 3]) = Num 80"
proof -
  let ?a = "example_task ''a'' ''A'' 100 2"
  let ?b = "example_task ''b'' ''B'' 300 3"
  have ne: "[?a, ?b] \<noteq> []"
    by simp
  have v: "revenue ?a = Some (Num 100) \<and> timeTaken ?a = Some (Num 2) \<and>
      revenue ?b = Some (Num 300) \<and> timeTaken ?b = Some (Num 3)"
    by (simp add: example_task_def)
  note w = metrics_ratios [OF ne, of "\<lambda>ts. Num 0" "\<lambda>r. ''Good''" ?a ?b]
  show ?thesis
    using w v by blast
qed

subsection \<open>The load: fallback on an empty result, error on a failure\<close>

lemma try_load_empty: "try_load env (Response True st (JsonData (JArray []))) = Inr []"
  by (simp add: try_load_def normalizeTasks_def)

lemma loadTasks_failed:
  "try_load env outcome = Inl e \<Longrightarrow>
   loadTasks env gen True outcome s =
     s\<lparr>error := Some (case e of None \<Rightarrow> ''Failed to load tasks'' | Some m \<Rightarrow> m),
       loading := False\<rparr>"
  by (simp add: loadTasks_def)

text \<open>
  C6, amended: for a load that settles while the hook is mounted. If the response is ok
  and its body is the empty array, or a value that is not an array, which
  \<^verbatim>\<open>normalizeTasks\<close> reads as the empty array, the collection becomes
  \<^verbatim>\<open>generateSalesTasks(50)\<close>, which is not empty for a generator that returns as many
  tasks as it is asked for, and no error is recorded. If the \<^verbatim>\<open>try\<close> block throws,
  the state is the prior state with a non-null error message and \<^verbatim>\<open>loading\<close> false:
  the collection is the prior one (empty from the initial state), and the result is the
  same for every generator, which is not called. The block throws when \<^verbatim>\<open>fetch\<close>
  rejects, when the response is not ok, when \<^verbatim>\<open>res.json()\<close> rejects, and when
  \<^verbatim>\<open>normalizeTasks\<close> throws, as it does on an array that starts with null. A load
  that settles after the hook is unmounted changes nothing.
\<close>

theorem loadTasks_asymmetry:
  "((\<forall>n. length (gen n) = n) \<longrightarrow>
      tasks (loadTasks env gen True (Response True st (JsonData (JArray []))) s) = gen 50 \<and>
      tasks (loadTasks env gen True (Response True st (JsonData (JArray []))) s) \<noteq> [] \<and>
      error (loadTasks env gen True (Response True st (JsonData (JArray []))) s) = error s) \<and>
   tasks (loadTasks env gen True (Response True st (JsonData JNotArray)) s) = gen 50 \<and>
   error (loadTasks env gen True (Response True st (JsonData JNotArray)) s) = error s \<and>
   loadTasks env gen False outcome s = s \<and>
   (try_load env outcome = Inl e \<longrightarrow>
      loadTasks env gen True outcome s =
        s\<lparr>error := Some (case e of None \<Rightarrow> ''Failed to load tasks'' | Some m \<Rightarrow> m),
          loading := False\<rparr> \<and>
      error (loadTasks env gen True outcome s) \<noteq> None \<and>
      tasks (loadTasks env gen True outcome s) = tasks s \<and>
      tasks (loadTasks env gen True outcome initial_state) = [] \<and>
      loadTasks env gen' True outcome s = loadTasks env gen True outcome s) \<and>
   try_load env (FetchRejected e) = Inl e \<and>
   try_load env (Response False st body) =
     Inl (Some (''Failed to load tasks.json ('' @ show_nat st @ '')'')) \<and>
   try_load env (Response True st (JsonRejected e)) = Inl e \<and>
   (normalizeTasks env d = Inl err \<longrightarrow>
      try_load env (Response True st (JsonData d)) = Inl (Some (error_message env err))) \<and>
   normalizeTasks env (JArray (None # rs)) = Inl TypeError"
proof (intro conjI impI)
  let ?ok = "Response True st (JsonData (JArray []))"
  assume g: "\<forall>n. length (gen n) = n"
  show t: "tasks (loadTasks env gen True ?ok s) = gen 50"
    by (simp add: loadTasks_def try_load_empty)
  from g have "length (gen 50) = 50" by blast
  then have "gen 50 \<noteq> []" by auto
  then show "tasks (loadTasks env gen True ?ok s) \<noteq> []"
    by (simp add: t)
  show "error (loadTasks env gen True ?ok s) = error s"
    by (simp add: loadTasks_def try_load_empty)
next
  assume f: "try_load env outcome = Inl e"
  show "loadTasks env gen True outcome s =
        s\<lparr>error := Some (case e of None \<Rightarrow> ''Failed to load tasks'' | Some m \<Rightarrow> m),
          loading := False\<rparr>"
    using f by (rule loadTasks_failed)
  show "error (loadTasks env gen True outcome s) \<noteq> None"
    by (simp add: loadTasks_failed [OF f])
  show "tasks (loadTasks env gen True outcome s) = tasks s"
    by (simp add: loadTasks_failed [OF f])
  show "tasks (loadTasks env gen True outcome initial_state) = []"
    by (simp add: loadTasks_failed [OF f] initial_state_def)
  show "loadTasks env gen' True outcome s = loadTasks env gen True outcome s"
    by (simp add: loadTasks_failed [OF f])
next
  show "tasks (loadTasks env gen True (Response True st (JsonData JNotArray)) s) = gen 50"
    by (simp add: loadTasks_def try_load_def normalizeTasks_def)
  show "error (loadTasks env gen True (Response True st (JsonData JNotArray)) s) = error s"
    by (simp add: loadTasks_def try_load_def normalizeTasks_def)
  show "loadTasks env gen False outcome s = s"
    by (simp add: loadTasks_def split: sum.splits)
  show "try_load env (FetchRejected e) = Inl e"
    by (simp add: try_load_def)
  show "try_load env (Response False st body) =
     Inl (Some (''Failed to load tasks.json ('' @ show_nat st @ '')''))"
    by (simp add: try_load_def)
  show "try_load env (Response True st (JsonRejected e)) = Inl e"
    by (simp add: try_load_def)
  show "normalizeTasks env (JArray (None # rs)) = Inl TypeError"
    by (simp add: normalizeTasks_def normalize_one_def)
next
  assume "normalizeTasks env d = Inl err"
  then show "try_load env (Response True st (JsonData d)) = Inl (Some (error_message env err))"
    by (simp add: try_load_def)
qed

theorem loadTasks_asymmetry_witness:
  "length (tasks (loadTasks example_env example_generator True
      (Response True 200 (JsonData (JArray []))) initial_state)) = 50 \<and>
   error (loadTasks example_env example_generator True
      (Response True 200 (JsonData (JArray []))) initial_state) = None \<and>
   loadTasks example_env example_generator True (FetchRejected None) initial_state =
     initial_state\<lparr>error := Some ''Failed to load tasks'', loading := False\<rparr> \<and>
   loadTasks example_env example_generator True
      (Response True 200 (JsonData (JArray [None]))) initial_state =
     initial_state\<lparr>error := Some ''Cannot read properties of null'', loading := False\<rparr> \<and>
   loadTasks example_env example_generator True
      (Response False 404 (JsonData (JArray []))) initial_state =
     initial_state\<lparr>error := Some ''Failed to load tasks.json (404)'', loading := False\<rparr>"
proof -
  let ?ok = "Response True 200 (JsonData (JArray []))"
  let ?bad = "Response True 200 (JsonData (JArray [None]))"
  have g: "\<forall>n. length (example_generator n) = n"
    by (simp add: example_generator_def)
  note w = loadTasks_asymmetry [where env = example_env and gen = example_generator
      and s = initial_state and st = 200]
  have "tasks (loadTasks example_env example_generator True ?ok initial_state) =
      example_generator 50"
    using w g by blast
  then have 1: "length (tasks (loadTasks example_env example_generator True ?ok initial_state))
      = 50"
    using g by simp
  have "error (loadTasks example_env example_generator True ?ok initial_state) =
      error initial_state"
    using w g by blast
  then have 2: "error (loadTasks example_env example_generator True ?ok initial_state) = None"
    by (simp add: initial_state_def)
  have r: "try_load example_env (FetchRejected None) = Inl None"
    using w [where e = None] by blast
  have 3: "loadTasks example_env example_generator True (FetchRejected None) initial_state =
     initial_state\<lparr>error := Some ''Failed to load tasks'', loading := False\<rparr>"
    using w [where outcome = "FetchRejected None" and e = None] r by simp
  have "normalizeTasks example_env (JArray [None]) = Inl TypeError"
    using w [where rs = "[]"] by blast
  then have "try_load example_env ?bad = Inl (Some (error_message example_env TypeError))"
    using w [where d = "JArray [None]" and err = TypeError] by blast
  then have b: "try_load example_env ?bad = Inl (Some ''Cannot read properties of null'')"
    by (simp add: error_message_def example_env_def)
  have 4: "loadTasks example_env example_generator True ?bad initial_state =
     initial_state\<lparr>error := Some ''Cannot read properties of null'', loading := False\<rparr>"
    using w [where outcome = ?bad and e = "Some ''Cannot read properties of null''"] b
    by simp
  have digits: "show_nat 404 = ''404''"
    by (simp add: show_nat.simps)
  have "try_load example_env (Response False 404 (JsonData (JArray []))) =
      Inl (Some (''Failed to load tasks.json ('' @ show_nat 404 @ '')''))"
    using loadTasks_asymmetry [where env = example_env and st = 404
        and body = "JsonData (JArray [])"] by blast
  then have n: "try_load example_env (Response False 404 (JsonData (JArray []))) =
      Inl (Some ''Failed to load tasks.json (404)'')"
    by (simp add: digits)
  have 5: "loadTasks example_env example_generator True
      (Response False 404 (JsonData (JArray []))) initial_state =
     initial_state\<lparr>error := Some ''Failed to load tasks.json (404)'', loading := False\<rparr>"
    using loadTasks_asymmetry [where env = example_env and gen = example_generator
        and s = initial_state and outcome = "Response False 404 (JsonData (JArray []))"
        and e = "Some ''Failed to load tasks.json (404)''"] n
    by simp
  show ?thesis
    using 1 2 3 4 5 by blast
qed

text \<open>
  C6 as stated fails on malformed data that parses: a body that is not an array, where
  a sequence of records is expected, makes no error and gets the fallback set. It also
  fails for a load that settles after the hook is unmounted: a rejected \<^verbatim>\<open>fetch\<close>
  then records no error.
\<close>

theorem loadTasks_not_array_counterexample:
  "tasks (loadTasks example_env example_generator True
      (Response True 200 (JsonData JNotArray)) initial_state) = example_generator 50 \<and>
   length (example_generator 50) = 50 \<and>
   error (loadTasks example_env example_generator True
      (Response True 200 (JsonData JNotArray)) initial_state) = None \<and>
   error (loadTasks example_env example_generator False
      (FetchRejected (Some ''Failed to fetch'')) initial_state) = None"
  by (simp add: loadTasks_def try_load_def normalizeTasks_def initial_state_def
      example_generator_def)

end
